theory Spec2Isabelle
  imports Complex_Main
begin

section \<open>Text primitives of the Python runtime used by the recorder and the replayer\<close>

text \<open>
  Lines of the event stream, tokens and labels are Python \<open>str\<close> values. They are modelled
  as \<open>string\<close> over ASCII text (what \<open>getevent\<close> prints); a character outside ASCII is
  treated as neither white space, digit, letter nor word character.
\<close>

text \<open>\<open>sub in s\<close> on strings: \<open>sub\<close> occurs as a contiguous substring of \<open>s\<close>.\<close>

definition startswith :: "string \<Rightarrow> string \<Rightarrow> bool" where
  "startswith s p = (take (length p) s = p)"

fun contains :: "string \<Rightarrow> string \<Rightarrow> bool" where
  "contains sub [] = (sub = [])"
| "contains sub (c # cs) = (startswith (c # cs) sub \<or> contains sub cs)"

text \<open>The ASCII characters \<open>str.split()\<close> and \<open>str.strip()\<close> treat as white space.\<close>

definition is_space :: "char \<Rightarrow> bool" where
  "is_space c = (c \<in> {CHR 0x09, CHR 0x0A, CHR 0x0B, CHR 0x0C, CHR 0x0D,
                        CHR 0x1C, CHR 0x1D, CHR 0x1E, CHR 0x1F, CHR 0x20})"

text \<open>
  The characters \<open>int()\<close> skips around a literal: the separators \<open>0x1C\<close> to \<open>0x1F\<close>
  are not among them.
\<close>

definition is_int_space :: "char \<Rightarrow> bool" where
  "is_int_space c = (c \<in> {CHR 0x09, CHR 0x0A, CHR 0x0B, CHR 0x0C, CHR 0x0D, CHR 0x20})"

text \<open>
  \<open>s.split()\<close>: the maximal runs of characters that are not white space, in order.
  The accumulator holds the current run, reversed.
\<close>

fun split_acc :: "string \<Rightarrow> string \<Rightarrow> string list" where
  "split_acc acc [] = (if acc = [] then [] else [rev acc])"
| "split_acc acc (c # cs) =
     (if is_space c then (if acc = [] then split_acc [] cs else rev acc # split_acc [] cs)
      else split_acc (c # acc) cs)"

definition py_split :: "string \<Rightarrow> string list" where
  "py_split s = split_acc [] s"

text \<open>\<open>s.split()[-1]\<close>; \<open>None\<close> stands for the \<open>IndexError\<close> raised on an empty list.\<close>

definition last_token :: "string \<Rightarrow> string option" where
  "last_token s = (case py_split s of [] \<Rightarrow> None | t # ts \<Rightarrow> Some (last (t # ts)))"

text \<open>
  The value of a character as a digit, as \<open>int()\<close> reads it: \<open>0\<close> to \<open>9\<close>, then the
  letters of either case from ten on.
\<close>

definition digit_value :: "char \<Rightarrow> nat option" where
  "digit_value c =
     (let n = (of_char c :: nat) in
      if 48 \<le> n \<and> n \<le> 57 then Some (n - 48)
      else if 97 \<le> n \<and> n \<le> 122 then Some (n - 87)
      else if 65 \<le> n \<and> n \<le> 90 then Some (n - 55)
      else None)"

text \<open>
  The digits of an \<open>int()\<close> literal in base \<open>b\<close>: digits below the base, with single
  underscores allowed between digits. \<open>prev\<close> is the character read last.
\<close>

fun scan_digits :: "nat \<Rightarrow> char \<Rightarrow> nat \<Rightarrow> string \<Rightarrow> nat option" where
  "scan_digits b prev acc [] = (if prev = CHR ''_'' then None else Some acc)"
| "scan_digits b prev acc (c # cs) =
     (if c = CHR ''_'' then (if prev = CHR ''_'' then None else scan_digits b c acc cs)
      else (case digit_value c of
              None \<Rightarrow> None
            | Some d \<Rightarrow> if d < b then scan_digits b c (acc * b + d) cs else None))"

definition strip_ws :: "string \<Rightarrow> string" where
  "strip_ws s = rev (dropWhile is_int_space (rev (dropWhile is_int_space s)))"

text \<open>
  \<open>int(s, b)\<close> for \<open>b\<close> ten or sixteen; \<open>None\<close> stands for \<open>ValueError\<close>. Surrounding white
  space is dropped, a sign may follow, then in base sixteen an optional \<open>0x\<close> or \<open>0X\<close> with
  at most one underscore after it, then at least one digit. (The limit newer interpreters
  put on the length of a decimal literal is not modelled.)
\<close>

definition py_int :: "nat \<Rightarrow> string \<Rightarrow> int option" where
  "py_int b s =
     (let t = strip_ws s;
          neg = startswith t ''-'';
          t1 = (if startswith t ''+'' \<or> startswith t ''-'' then drop 1 t else t);
          t2 = (if b = 16 \<and> (startswith t1 ''0x'' \<or> startswith t1 ''0X'')
                then (if startswith (drop 2 t1) ''_'' then drop 3 t1 else drop 2 t1)
                else t1)
      in if t2 = [] \<or> startswith t2 ''_'' then None
         else (case scan_digits b (CHR ''0'') 0 t2 of
                 None \<Rightarrow> None
               | Some n \<Rightarrow> Some (if neg then - int n else int n)))"

text \<open>\<open>str(n)\<close> for an integer: its decimal digits, with a minus sign when negative.\<close>

definition digit_char :: "nat \<Rightarrow> char" where
  "digit_char d = char_of (48 + d)"

function str_nat :: "nat \<Rightarrow> string" where
  "str_nat n = (if n < 10 then [digit_char n] else str_nat (n div 10) @ [digit_char (n mod 10)])"
  by pat_completeness auto
termination
  by (relation "measure id") auto

declare str_nat.simps [simp del]

definition str_int :: "int \<Rightarrow> string" where
  "str_int i = (if i < 0 then CHR ''-'' # str_nat (nat (- i)) else str_nat (nat i))"


text \<open>The characters the pattern class \<open>\w\<close> matches: letters, digits and the underscore.\<close>

definition is_word :: "char \<Rightarrow> bool" where
  "is_word c =
     (let n = (of_char c :: nat) in
      (48 \<le> n \<and> n \<le> 57) \<or> (65 \<le> n \<and> n \<le> 90) \<or> (97 \<le> n \<and> n \<le> 122) \<or> n = 95)"

text \<open>
  \<open>re.search(r'KEY_(\w+)', line)\<close>: the leftmost place where \<open>KEY_\<close> is followed by a
  word character; the group is the longest run of word characters from there.
\<close>

fun key_search :: "string \<Rightarrow> string option" where
  "key_search [] = None"
| "key_search (c # cs) =
     (if startswith (c # cs) ''KEY_'' \<and> takeWhile is_word (drop 4 (c # cs)) \<noteq> []
      then Some (takeWhile is_word (drop 4 (c # cs)))
      else key_search cs)"

section \<open>Raw event tokenizer (\<open>_parse_event\<close>)\<close>

text \<open>
  The dictionary \<open>event_info\<close> built for one line. A key that is absent from the
  dictionary is \<open>None\<close> here.
\<close>

record event_info =
  ei_x :: "int option"
  ei_y :: "int option"
  ei_event_type :: "string option"
  ei_extra_info :: "string option"

definition no_info :: event_info where
  "no_info = \<lparr>ei_x = None, ei_y = None, ei_event_type = None, ei_extra_info = None\<rparr>"

text \<open>
  The expression \<open>int(value[2:], 16) if value.startswith("0x") else int(value)\<close> that
  every numeric branch of the tokenizer evaluates.
\<close>

definition parse_value :: "string \<Rightarrow> int option" where
  "parse_value v = (if startswith v ''0x'' then py_int 16 (drop 2 v) else py_int 10 v)"

text \<open>
  \<open>_parse_event\<close> of \<open>r.py\<close>. The whole chain runs inside one \<open>try\<close>: an exception
  leaves the dictionary as it was filled so far and returns it.
\<close>

definition parse_event_r :: "string \<Rightarrow> event_info" where
  "parse_event_r line =
     (if contains ''ABS_MT_POSITION_X'' line \<or> contains ''ABS_X'' line then
        (case last_token line of
           None \<Rightarrow> no_info
         | Some v \<Rightarrow> (case parse_value v of
                        None \<Rightarrow> no_info
                      | Some n \<Rightarrow> no_info\<lparr>ei_x := Some n\<rparr>))
      else if contains ''ABS_MT_POSITION_Y'' line \<or> contains ''ABS_Y'' line then
        (case last_token line of
           None \<Rightarrow> no_info
         | Some v \<Rightarrow> (case parse_value v of
                        None \<Rightarrow> no_info
                      | Some n \<Rightarrow> no_info\<lparr>ei_y := Some n\<rparr>))
      else if contains ''ABS_MT_PRESSURE'' line \<or> contains ''ABS_PRESSURE'' line then
        (case last_token line of
           None \<Rightarrow> no_info
         | Some v \<Rightarrow> (case parse_value v of
                        None \<Rightarrow> no_info
                      | Some n \<Rightarrow> no_info\<lparr>ei_extra_info := Some (''Pressure:'' @ str_int n)\<rparr>))
      else if contains ''BTN_TOUCH'' line then
        no_info\<lparr>ei_event_type :=
          Some (if contains ''DOWN'' line then ''TOUCH_DOWN'' else ''TOUCH_UP'')\<rparr>
      else if contains ''ABS_MT_TRACKING_ID'' line then
        (case last_token line of
           None \<Rightarrow> no_info
         | Some v \<Rightarrow>
             if contains ''ffffffff'' v then no_info\<lparr>ei_event_type := Some ''TOUCH_UP''\<rparr>
             else (case parse_value v of
                     None \<Rightarrow> no_info\<lparr>ei_event_type := Some ''TOUCH_DOWN''\<rparr>
                   | Some n \<Rightarrow> no_info\<lparr>ei_event_type := Some ''TOUCH_DOWN'',
                                         ei_extra_info := Some (''TrackID:'' @ str_int n)\<rparr>))
      else if contains ''EV_SYN SYN_REPORT'' line then
        no_info\<lparr>ei_event_type := Some ''MOTION''\<rparr>
      else if contains ''EV_KEY'' line \<and> contains ''KEY_'' line then
        (case key_search line of
           None \<Rightarrow> no_info
         | Some key_name \<Rightarrow>
             no_info\<lparr>ei_event_type :=
                        Some (if contains ''DOWN'' line then ''KEY_DOWN'' else ''KEY_UP''),
                      ei_extra_info := Some (''Key:'' @ key_name)\<rparr>)
      else no_info)"

text \<open>
  \<open>_parse_event\<close> of \<open>adbpull.py\<close>. Each numeric branch has its own \<open>try\<close> that passes
  on \<open>ValueError\<close> and \<open>IndexError\<close>; a touch-button or key line with neither \<open>DOWN\<close> nor
  \<open>UP\<close> gets no event type.
\<close>

definition parse_event_adbpull :: "string \<Rightarrow> event_info" where
  "parse_event_adbpull line =
     (if contains ''ABS_MT_POSITION_X'' line \<or> contains ''ABS_X'' line then
        (case last_token line of
           None \<Rightarrow> no_info
         | Some v \<Rightarrow> (case parse_value v of
                        None \<Rightarrow> no_info
                      | Some n \<Rightarrow> no_info\<lparr>ei_x := Some n\<rparr>))
      else if contains ''ABS_MT_POSITION_Y'' line \<or> contains ''ABS_Y'' line then
        (case last_token line of
           None \<Rightarrow> no_info
         | Some v \<Rightarrow> (case parse_value v of
                        None \<Rightarrow> no_info
                      | Some n \<Rightarrow> no_info\<lparr>ei_y := Some n\<rparr>))
      else if contains ''ABS_MT_PRESSURE'' line \<or> contains ''ABS_PRESSURE'' line then
        (case last_token line of
           None \<Rightarrow> no_info
         | Some v \<Rightarrow> (case parse_value v of
                        None \<Rightarrow> no_info
                      | Some n \<Rightarrow> no_info\<lparr>ei_extra_info := Some (''Pressure:'' @ str_int n)\<rparr>))
      else if contains ''BTN_TOUCH'' line then
        (if contains ''DOWN'' line then no_info\<lparr>ei_event_type := Some ''TOUCH_DOWN''\<rparr>
         else if contains ''UP'' line then no_info\<lparr>ei_event_type := Some ''TOUCH_UP''\<rparr>
         else no_info)
      else if contains ''ABS_MT_TRACKING_ID'' line then
        (case last_token line of
           None \<Rightarrow> no_info
         | Some v \<Rightarrow>
             if contains ''ffffffff'' v then no_info\<lparr>ei_event_type := Some ''TOUCH_UP''\<rparr>
             else (case parse_value v of
                     None \<Rightarrow> no_info\<lparr>ei_event_type := Some ''TOUCH_DOWN''\<rparr>
                   | Some n \<Rightarrow> no_info\<lparr>ei_event_type := Some ''TOUCH_DOWN'',
                                         ei_extra_info := Some (''TrackID:'' @ str_int n)\<rparr>))
      else if contains ''EV_SYN SYN_REPORT'' line then
        no_info\<lparr>ei_event_type := Some ''MOTION''\<rparr>
      else if contains ''EV_KEY'' line then
        (if contains ''KEY_'' line then
           (case key_search line of
              None \<Rightarrow> no_info
            | Some key_name \<Rightarrow>
                (if contains ''DOWN'' line then no_info\<lparr>ei_event_type := Some ''KEY_DOWN''\<rparr>
                 else if contains ''UP'' line then no_info\<lparr>ei_event_type := Some ''KEY_UP''\<rparr>
                 else no_info)\<lparr>ei_extra_info := Some (''Key:'' @ key_name)\<rparr>)
         else no_info)
      else no_info)"


section \<open>UI hierarchy tracker\<close>

text \<open>
  One dictionary of \<open>current_view_hierarchy\<close>. \<open>r.py\<close> stores all nine keys;
  \<open>adbpull.py\<close> stores the bounds, \<open>resource_id\<close>, \<open>text\<close> and \<open>class\<close> only, and
  its nodes carry empty strings in the two fields it never reads.
\<close>

record ui_node =
  node_x1 :: int
  node_y1 :: int
  node_x2 :: int
  node_y2 :: int
  node_resource_id :: string
  node_content_desc :: string
  node_text :: string
  node_class :: string
  node_package :: string

text \<open>The test \<open>node['x1'] <= x <= node['x2'] and node['y1'] <= y <= node['y2']\<close>.\<close>

definition node_contains :: "ui_node \<Rightarrow> int \<Rightarrow> int \<Rightarrow> bool" where
  "node_contains n px py =
     (node_x1 n \<le> px \<and> px \<le> node_x2 n \<and> node_y1 n \<le> py \<and> py \<le> node_y2 n)"

text \<open>The key \<open>(n['x2'] - n['x1']) * (n['y2'] - n['y1'])\<close>.\<close>

definition area :: "ui_node \<Rightarrow> int" where
  "area n = (node_x2 n - node_x1 n) * (node_y2 n - node_y1 n)"

text \<open>
  \<open>min(xs, key=f)\<close> on a list with head \<open>best\<close>: the first element whose key is least.
\<close>

fun min_by :: "('a \<Rightarrow> int) \<Rightarrow> 'a \<Rightarrow> 'a list \<Rightarrow> 'a" where
  "min_by f best [] = best"
| "min_by f best (n # ns) = (if f n < f best then min_by f n ns else min_by f best ns)"

text \<open>\<open>s.split('.')[-1]\<close>: what follows the last dot.\<close>

definition last_segment :: "string \<Rightarrow> string" where
  "last_segment s = rev (takeWhile (\<lambda>c. c \<noteq> CHR ''.'') (rev s))"

text \<open>The label \<open>r.py\<close> returns for the node it chose.\<close>

definition label_r :: "ui_node \<Rightarrow> string" where
  "label_r n =
     (if node_resource_id n \<noteq> [] then node_resource_id n
      else if node_content_desc n \<noteq> []
        then node_class n @ '' '' @ [CHR 0x27] @ node_content_desc n @ [CHR 0x27]
      else if node_text n \<noteq> []
        then node_class n @ '' '' @ [CHR 0x27] @ node_text n @ [CHR 0x27]
      else if node_class n \<noteq> [] then last_segment (node_class n)
      else ''unknown'')"

text \<open>The label \<open>adbpull.py\<close> returns for the node it chose.\<close>

definition label_adbpull :: "ui_node \<Rightarrow> string" where
  "label_adbpull n =
     (let resource_info = node_resource_id n;
          text_info = (if node_text n \<noteq> []
                       then '' ('' @ [CHR 0x27] @ node_text n @ [CHR 0x27] @ '')'' else [])
      in if resource_info = ''no-id'' \<and> node_class n \<noteq> []
         then last_segment (node_class n) @ text_info
         else resource_info @ text_info)"

text \<open>\<open>_find_resource_at_coordinates\<close> of \<open>r.py\<close>, on the stored snapshot.\<close>

definition find_resource_at_coordinates_r ::
  "ui_node list \<Rightarrow> int option \<Rightarrow> int option \<Rightarrow> string" where
  "find_resource_at_coordinates_r hierarchy px py =
     (case (px, py) of
        (Some xv, Some yv) \<Rightarrow>
          if hierarchy = [] then ''unknown''
          else (case filter (\<lambda>n. node_contains n xv yv) hierarchy of
                  [] \<Rightarrow> ''unknown''
                | m # ms \<Rightarrow> label_r (min_by area m ms))
      | _ \<Rightarrow> ''unknown'')"

text \<open>\<open>_find_resource_at_coordinates\<close> of \<open>adbpull.py\<close>.\<close>

definition find_resource_at_coordinates_adbpull ::
  "ui_node list \<Rightarrow> int option \<Rightarrow> int option \<Rightarrow> string" where
  "find_resource_at_coordinates_adbpull hierarchy px py =
     (case (px, py) of
        (Some xv, Some yv) \<Rightarrow>
          (case filter (\<lambda>n. node_contains n xv yv) hierarchy of
             [] \<Rightarrow> ''unknown''
           | m # ms \<Rightarrow> label_adbpull (min_by area m ms))
      | _ \<Rightarrow> ''unknown'')"

subsection \<open>Refreshing the snapshot (\<open>_update_view_hierarchy\<close>)\<close>

text \<open>
  What the device and the file system answer during one refresh is an input of the model.
  A command run through \<open>subprocess.run\<close> ends in \<open>TimeoutExpired\<close>, in another exception,
  or completes with a return code, its standard output and its standard error.
\<close>

datatype cmd_outcome = TimeoutExpired | CommandError | Completed int string string

text \<open>
  A \<open>node\<close> element that \<open>root.findall('.//node')\<close> yields: its attributes.
\<close>

type_synonym xml_node = "(string \<times> string) list"

text \<open>
  A match of the pattern \<open>adbpull.py\<close> runs over the document text: the whole match and
  its groups, the four bounds as the digit strings they are, the resource id when the
  optional group took part.
\<close>

record node_match =
  nm_group0 :: string
  nm_x1 :: string
  nm_y1 :: string
  nm_x2 :: string
  nm_y2 :: string
  nm_resource_id :: "string option"

text \<open>
  \<open>/tmp/window_dump.xml\<close> after the pull step: absent, present but unreadable, or a text.
  Of a text the model holds what the two library parsers make of it: the \<open>node\<close> elements
  \<open>ElementTree\<close> finds (\<open>None\<close> when it raises \<open>ParseError\<close>), and the matches of the
  pattern of \<open>adbpull.py\<close> in document order.
\<close>

datatype local_doc = Missing | Unreadable | Document "xml_node list option" "node_match list"

record refresh_env =
  re_rm :: cmd_outcome
  re_dump :: cmd_outcome
  re_pull :: cmd_outcome
  re_local :: local_doc

definition is_digit :: "char \<Rightarrow> bool" where
  "is_digit c = (let n = (of_char c :: nat) in 48 \<le> n \<and> n \<le> 57)"

definition expect :: "char \<Rightarrow> string \<Rightarrow> string option" where
  "expect c s = (case s of [] \<Rightarrow> None | d # r \<Rightarrow> if d = c then Some r else None)"

definition take_digits :: "string \<Rightarrow> (string \<times> string) option" where
  "take_digits s =
     (if takeWhile is_digit s = [] then None
      else Some (takeWhile is_digit s, dropWhile is_digit s))"

text \<open>
  \<open>re.match(r'\[(\d+),(\d+)\]\[(\d+),(\d+)\]', bounds_str)\<close>: the four groups, matched at
  the start of the string; what follows the match is free.
\<close>

definition match_bounds :: "string \<Rightarrow> (string \<times> string \<times> string \<times> string) option" where
  "match_bounds s =
     Option.bind (expect (CHR ''['') s) (\<lambda>s1.
     Option.bind (take_digits s1) (\<lambda>(g1, s2).
     Option.bind (expect (CHR '','') s2) (\<lambda>s3.
     Option.bind (take_digits s3) (\<lambda>(g2, s4).
     Option.bind (expect (CHR '']'') s4) (\<lambda>s5.
     Option.bind (expect (CHR ''['') s5) (\<lambda>s6.
     Option.bind (take_digits s6) (\<lambda>(g3, s7).
     Option.bind (expect (CHR '','') s7) (\<lambda>s8.
     Option.bind (take_digits s8) (\<lambda>(g4, s9).
     Option.bind (expect (CHR '']'') s9) (\<lambda>_. Some (g1, g2, g3, g4)))))))))))"

text \<open>\<open>node.get(key, '')\<close>.\<close>

definition attr :: "xml_node \<Rightarrow> string \<Rightarrow> string" where
  "attr node k = (case map_of node k of None \<Rightarrow> [] | Some v \<Rightarrow> v)"

text \<open>
  The loop of \<open>r.py\<close> over the \<open>node\<close> elements, appending to the list given. An
  exception inside the loop (\<open>int\<close> failing) ends it with what was appended so far.
\<close>

fun build_hierarchy_r :: "ui_node list \<Rightarrow> xml_node list \<Rightarrow> ui_node list" where
  "build_hierarchy_r acc [] = acc"
| "build_hierarchy_r acc (node # nodes) =
     (case map_of node ''bounds'' of
        None \<Rightarrow> build_hierarchy_r acc nodes
      | Some bounds_str \<Rightarrow>
          if bounds_str = [] then build_hierarchy_r acc nodes
          else (case match_bounds bounds_str of
                  None \<Rightarrow> build_hierarchy_r acc nodes
                | Some (g1, g2, g3, g4) \<Rightarrow>
                    (case (py_int 10 g1, py_int 10 g2, py_int 10 g3, py_int 10 g4) of
                       (Some a, Some b, Some c, Some d) \<Rightarrow>
                         build_hierarchy_r
                           (acc @ [\<lparr>node_x1 = a, node_y1 = b, node_x2 = c, node_y2 = d,
                                    node_resource_id = attr node ''resource-id'',
                                    node_content_desc = attr node ''content-desc'',
                                    node_text = attr node ''text'',
                                    node_class = attr node ''class'',
                                    node_package = attr node ''package''\<rparr>])
                           nodes
                     | _ \<Rightarrow> acc)))"

text \<open>
  The condition under which \<open>r.py\<close> pulls the document: the dump printed its message
  (spelt as in the source) or printed nothing to standard error.
\<close>

definition dump_accepted :: "string \<Rightarrow> string \<Rightarrow> bool" where
  "dump_accepted out err = ((out \<noteq> [] \<and> contains ''UI hierchary dumped to'' out) \<or> err = [])"

text \<open>
  \<open>_update_view_hierarchy\<close> of \<open>r.py\<close>, as a function from the stored snapshot to the
  stored snapshot. Every exception is caught inside the method.
\<close>

definition update_view_hierarchy_r :: "refresh_env \<Rightarrow> ui_node list \<Rightarrow> ui_node list" where
  "update_view_hierarchy_r env hierarchy =
     (case re_rm env of
        Completed _ _ _ \<Rightarrow>
          (case re_dump env of
             Completed _ out err \<Rightarrow>
               if dump_accepted out err then
                 (case re_pull env of
                    Completed _ _ _ \<Rightarrow>
                      (case re_local env of
                         Document (Some nodes) _ \<Rightarrow> build_hierarchy_r [] nodes
                       | _ \<Rightarrow> hierarchy)
                  | _ \<Rightarrow> hierarchy)
               else hierarchy
           | _ \<Rightarrow> hierarchy)
      | _ \<Rightarrow> hierarchy)"

text \<open>
  \<open>re.search(key + r'"([^"]*)"', node_str)\<close> for an attribute name followed by \<open>=\<close>: the
  leftmost place where the name, an opening quote, a run without quotes and a closing
  quote follow each other; the group is the run.
\<close>

fun attr_search :: "string \<Rightarrow> string \<Rightarrow> string option" where
  "attr_search k [] = None"
| "attr_search k (c # cs) =
     (if startswith (c # cs) (k @ [CHR 0x22]) \<and>
         dropWhile (\<lambda>d. d \<noteq> CHR 0x22) (drop (length k + 1) (c # cs)) \<noteq> []
      then Some (takeWhile (\<lambda>d. d \<noteq> CHR 0x22) (drop (length k + 1) (c # cs)))
      else attr_search k cs)"

definition extract_text_from_node :: "string \<Rightarrow> string" where
  "extract_text_from_node node_str =
     (case attr_search ''text='' node_str of None \<Rightarrow> [] | Some t \<Rightarrow> t)"

definition extract_class_from_node :: "string \<Rightarrow> string" where
  "extract_class_from_node node_str =
     (case attr_search ''class='' node_str of None \<Rightarrow> [] | Some t \<Rightarrow> t)"

text \<open>The loop of \<open>adbpull.py\<close> over the matches; an exception ends it likewise.\<close>

fun build_hierarchy_adbpull :: "ui_node list \<Rightarrow> node_match list \<Rightarrow> ui_node list" where
  "build_hierarchy_adbpull acc [] = acc"
| "build_hierarchy_adbpull acc (m # ms) =
     (case (py_int 10 (nm_x1 m), py_int 10 (nm_y1 m), py_int 10 (nm_x2 m), py_int 10 (nm_y2 m)) of
        (Some a, Some b, Some c, Some d) \<Rightarrow>
          build_hierarchy_adbpull
            (acc @ [\<lparr>node_x1 = a, node_y1 = b, node_x2 = c, node_y2 = d,
                     node_resource_id =
                       (case nm_resource_id m of
                          None \<Rightarrow> ''no-id''
                        | Some rid \<Rightarrow> if rid = [] then ''no-id'' else rid),
                     node_content_desc = [],
                     node_text = extract_text_from_node (nm_group0 m),
                     node_class = extract_class_from_node (nm_group0 m),
                     node_package = []\<rparr>])
            ms
      | _ \<Rightarrow> acc)"

text \<open>
  \<open>_update_view_hierarchy\<close> of \<open>adbpull.py\<close>: dump, pull, then the document if it exists.
  It runs no \<open>rm\<close> and reads neither output nor return code of the commands.
\<close>

definition update_view_hierarchy_adbpull :: "refresh_env \<Rightarrow> ui_node list \<Rightarrow> ui_node list" where
  "update_view_hierarchy_adbpull env hierarchy =
     (case re_dump env of
        Completed _ _ _ \<Rightarrow>
          (case re_pull env of
             Completed _ _ _ \<Rightarrow>
               (case re_local env of
                  Document _ matches \<Rightarrow> build_hierarchy_adbpull [] matches
                | _ \<Rightarrow> hierarchy)
           | _ \<Rightarrow> hierarchy)
      | _ \<Rightarrow> hierarchy)"


section \<open>Event aggregator\<close>

text \<open>
  A value of \<open>pending_events\<close>. Clock readings (\<open>time.time()\<close>) are real numbers of
  seconds; rounding of floating point numbers is not modelled.
\<close>

record pending_event =
  timestamp :: string
  device :: string
  package :: string
  activity :: string
  event_type :: string
  coord_x :: "int option"
  coord_y :: "int option"
  created_at :: real
  resource_id :: string
  extra_info :: string

text \<open>
  An element of the output array: the pending event without \<open>created_at\<close>, with
  \<open>event_id\<close> added.
\<close>

record json_obj =
  j_timestamp :: string
  j_device :: string
  j_package :: string
  j_activity :: string
  j_event_type :: string
  j_x :: "int option"
  j_y :: "int option"
  j_resource_id :: string
  j_extra_info :: string
  j_event_id :: nat

definition to_json :: "pending_event \<Rightarrow> nat \<Rightarrow> json_obj" where
  "to_json e n =
     \<lparr>j_timestamp = timestamp e, j_device = device e, j_package = package e,
      j_activity = activity e, j_event_type = event_type e, j_x = coord_x e, j_y = coord_y e,
      j_resource_id = resource_id e, j_extra_info = extra_info e, j_event_id = n\<rparr>"

text \<open>
  \<open>pending_events\<close> is a dictionary, iterated in insertion order: an association list
  with distinct keys. \<open>dict_set\<close> is the assignment \<open>d[k] = v\<close>: a present key keeps its
  place, a new key goes to the end.
\<close>

fun dict_set :: "'k \<Rightarrow> 'v \<Rightarrow> ('k \<times> 'v) list \<Rightarrow> ('k \<times> 'v) list" where
  "dict_set k v [] = [(k, v)]"
| "dict_set k v ((k', v') # d) = (if k' = k then (k, v) # d else (k', v') # dict_set k v d)"

definition buffer_timeout :: real where
  "buffer_timeout = 0.1"

text \<open>\<open>line.strip(":")\<close>.\<close>

definition strip_colon :: "string \<Rightarrow> string" where
  "strip_colon s =
     rev (dropWhile (\<lambda>c. c = CHR '':'') (rev (dropWhile (\<lambda>c. c = CHR '':'') s)))"

text \<open>
  What the outside world answers while one line is collected: the formatted wall clock
  (\<open>datetime.now()\<close>), the clock reading stored as \<open>created_at\<close>, and the focused
  package and activity the device reports (\<open>None\<close> when the query fails or finds nothing,
  in which case \<open>_get_current_app_info\<close> returns the values held). The last three fields
  are read by \<open>adbpull.py\<close> only: the clock before and after its in-line refresh, and the
  answers to that refresh.
\<close>

record collect_env =
  ce_timestamp :: string
  ce_time :: real
  ce_focus :: "(string \<times> string) option"
  ce_time_check :: real
  ce_refresh :: refresh_env
  ce_time_done :: real

subsection \<open>\<open>r.py\<close>\<close>

record recorder_r =
  r_current_device :: string
  r_pending_events :: "(string \<times> pending_event) list"
  r_current_view_hierarchy :: "ui_node list"
  r_last_hierarchy_update :: real
  r_event_counter :: nat
  r_current_pkg :: string
  r_current_activity :: string
  r_last_known_pkg :: string
  r_last_known_activity :: string
  r_update_hierarchy_needed :: bool
  r_output :: "json_obj list"

text \<open>The state \<open>__init__\<close> builds; \<open>r_output\<close> is the array written to the file.\<close>

definition init_r :: recorder_r where
  "init_r =
     \<lparr>r_current_device = ''unknown'', r_pending_events = [], r_current_view_hierarchy = [],
      r_last_hierarchy_update = 0, r_event_counter = 0, r_current_pkg = ''unknown'',
      r_current_activity = ''unknown'', r_last_known_pkg = ''unknown'',
      r_last_known_activity = ''unknown'', r_update_hierarchy_needed = False, r_output = []\<rparr>"

definition event_id_of :: "string \<Rightarrow> string \<Rightarrow> string \<Rightarrow> string" where
  "event_id_of ts ety dev = ts @ ''_'' @ ety @ ''_'' @ dev"

text \<open>
  The refresh of the application context on \<open>TOUCH_DOWN\<close> and \<open>KEY_DOWN\<close>: the event and
  the recorder are both updated.
\<close>

definition refresh_app_info_r ::
  "collect_env \<Rightarrow> pending_event \<times> recorder_r \<Rightarrow> pending_event \<times> recorder_r" where
  "refresh_app_info_r env es =
     (let (event, st) = es;
          (pkg, act) = (case ce_focus env of
                          None \<Rightarrow> (r_current_pkg st, r_current_activity st)
                        | Some pa \<Rightarrow> pa);
          (event1, st1) = (if pkg \<noteq> ''unknown''
                           then (event\<lparr>package := pkg\<rparr>, st\<lparr>r_current_pkg := pkg\<rparr>)
                           else (event, st));
          (event2, st2) = (if act \<noteq> ''unknown''
                           then (event1\<lparr>activity := act\<rparr>, st1\<lparr>r_current_activity := act\<rparr>)
                           else (event1, st1))
      in if pkg \<noteq> r_last_known_pkg st2 \<or> act \<noteq> r_last_known_activity st2
         then (event2, st2\<lparr>r_update_hierarchy_needed := True,
                           r_last_known_pkg := pkg, r_last_known_activity := act\<rparr>)
         else (event2, st2))"

text \<open>\<open>_collect_event_data\<close> of \<open>r.py\<close>.\<close>

definition collect_event_data_r :: "collect_env \<Rightarrow> string \<Rightarrow> recorder_r \<Rightarrow> recorder_r" where
  "collect_event_data_r env line st =
     (if startswith line ''/dev/input/'' then st\<lparr>r_current_device := strip_colon line\<rparr>
      else
        let info = parse_event_r line;
            ts = ce_timestamp env;
            ety = (case ei_event_type info of None \<Rightarrow> ''UNKNOWN'' | Some t \<Rightarrow> t);
            event_id = event_id_of ts ety (r_current_device st);
            event0 = (case map_of (r_pending_events st) event_id of
                        Some e \<Rightarrow> e
                      | None \<Rightarrow>
                          \<lparr>timestamp = ts, device = r_current_device st,
                           package = r_current_pkg st, activity = r_current_activity st,
                           event_type = ety, coord_x = None, coord_y = None,
                           created_at = ce_time env, resource_id = ''unknown'',
                           extra_info = []\<rparr>);
            event1 = (case ei_x info of None \<Rightarrow> event0 | Some v \<Rightarrow> event0\<lparr>coord_x := Some v\<rparr>);
            event2 = (case ei_y info of None \<Rightarrow> event1 | Some v \<Rightarrow> event1\<lparr>coord_y := Some v\<rparr>);
            event3 = (case ei_extra_info info of
                        None \<Rightarrow> event2 | Some v \<Rightarrow> event2\<lparr>extra_info := v\<rparr>);
            (event4, st1) =
              (case ei_event_type info of
                 None \<Rightarrow> (event3, st)
               | Some t \<Rightarrow>
                   if t = ''TOUCH_DOWN'' \<or> t = ''KEY_DOWN''
                   then refresh_app_info_r env (event3\<lparr>event_type := t\<rparr>, st)
                   else (event3\<lparr>event_type := t\<rparr>, st))
        in st1\<lparr>r_pending_events := dict_set event_id event4 (r_pending_events st)\<rparr>)"

text \<open>
  What the outside world answers during one pass of the loop of \<open>_process_buffer\<close>: the
  clock, and the answers to a refresh if the pass runs one.
\<close>

record tick_env =
  te_time :: real
  te_refresh :: refresh_env

text \<open>
  The scan of \<open>r.py\<close> over the pending events, in dictionary order, from the counter
  given: the records written, the entries kept, the counter reached. The output file is
  a list of records, and appending to it is taken to succeed. Removing the keys flushed
  is keeping the other entries, the keys being distinct.
\<close>

fun flush_loop_r ::
  "real \<Rightarrow> ui_node list \<Rightarrow> (string \<times> pending_event) list \<Rightarrow> nat \<Rightarrow>
   json_obj list \<times> (string \<times> pending_event) list \<times> nat" where
  "flush_loop_r now h [] n = ([], [], n)"
| "flush_loop_r now h ((k, e) # rest) n =
     (if now - created_at e > buffer_timeout then
        (let e' = (if coord_x e \<noteq> None \<and> coord_y e \<noteq> None
                   then e\<lparr>resource_id := find_resource_at_coordinates_r h (coord_x e) (coord_y e)\<rparr>
                   else e);
             (out, keep, n') = flush_loop_r now h rest (n + 1)
         in (to_json e' n # out, keep, n'))
      else
        (let (out, keep, n') = flush_loop_r now h rest n
         in (out, (k, e) # keep, n')))"

text \<open>One pass of the loop of \<open>_process_buffer\<close> of \<open>r.py\<close>.\<close>

definition process_buffer_r :: "tick_env \<Rightarrow> recorder_r \<Rightarrow> recorder_r" where
  "process_buffer_r env st =
     (let current_time = te_time env;
          st1 = (if r_update_hierarchy_needed st
                 then st\<lparr>r_current_view_hierarchy :=
                            update_view_hierarchy_r (te_refresh env) (r_current_view_hierarchy st),
                         r_last_hierarchy_update := current_time,
                         r_update_hierarchy_needed := False\<rparr>
                 else st);
          st2 = (if current_time - r_last_hierarchy_update st1 > 1.0
                 then st1\<lparr>r_current_view_hierarchy :=
                             update_view_hierarchy_r (te_refresh env) (r_current_view_hierarchy st1),
                          r_last_hierarchy_update := current_time\<rparr>
                 else st1);
          (out, keep, n') = flush_loop_r current_time (r_current_view_hierarchy st2)
                              (r_pending_events st2) (r_event_counter st2)
      in st2\<lparr>r_pending_events := keep, r_event_counter := n', r_output := r_output st2 @ out\<rparr>)"

subsection \<open>\<open>adbpull.py\<close>\<close>

record recorder_a =
  a_coords_x :: "int option"
  a_coords_y :: "int option"
  a_current_pkg :: string
  a_current_activity :: string
  a_current_device :: string
  a_pending_events :: "(string \<times> pending_event) list"
  a_current_view_hierarchy :: "ui_node list"
  a_last_hierarchy_update :: real
  a_event_counter :: nat
  a_output :: "json_obj list"

definition init_a :: recorder_a where
  "init_a =
     \<lparr>a_coords_x = None, a_coords_y = None, a_current_pkg = ''unknown'',
      a_current_activity = ''unknown'', a_current_device = ''unknown'', a_pending_events = [],
      a_current_view_hierarchy = [], a_last_hierarchy_update = 0, a_event_counter = 0,
      a_output = []\<rparr>"

text \<open>\<open>_collect_event_data\<close> of \<open>adbpull.py\<close>.\<close>

definition collect_event_data_adbpull ::
  "collect_env \<Rightarrow> string \<Rightarrow> recorder_a \<Rightarrow> recorder_a" where
  "collect_event_data_adbpull env line st =
     (if startswith line ''/dev/input/'' then st\<lparr>a_current_device := strip_colon line\<rparr>
      else
        let info = parse_event_adbpull line;
            st1 = (case ei_x info of None \<Rightarrow> st | Some v \<Rightarrow> st\<lparr>a_coords_x := Some v\<rparr>);
            st2 = (case ei_y info of None \<Rightarrow> st1 | Some v \<Rightarrow> st1\<lparr>a_coords_y := Some v\<rparr>)
        in case ei_event_type info of
             None \<Rightarrow> st2
           | Some t \<Rightarrow>
               let ts = ce_timestamp env;
                   event_id = event_id_of ts t (a_current_device st2);
                   event = (case map_of (a_pending_events st2) event_id of
                              None \<Rightarrow>
                                \<lparr>timestamp = ts, device = a_current_device st2,
                                 package = a_current_pkg st2, activity = a_current_activity st2,
                                 event_type = t, coord_x = a_coords_x st2,
                                 coord_y = a_coords_y st2, created_at = ce_time env,
                                 resource_id = ''unknown'',
                                 extra_info = (case ei_extra_info info of
                                                 None \<Rightarrow> [] | Some v \<Rightarrow> v)\<rparr>
                            | Some e \<Rightarrow>
                                (let e1 = e\<lparr>coord_x := a_coords_x st2, coord_y := a_coords_y st2,
                                            created_at := ce_time env\<rparr>
                                 in case ei_extra_info info of
                                      None \<Rightarrow> e1 | Some v \<Rightarrow> e1\<lparr>extra_info := v\<rparr>));
                   st3 = st2\<lparr>a_pending_events := dict_set event_id event (a_pending_events st2)\<rparr>
               in if t = ''MOTION'' \<or> t = ''TOUCH_UP'' then
                    (let (pkg, act) = (case ce_focus env of
                                         None \<Rightarrow> (a_current_pkg st3, a_current_activity st3)
                                       | Some pa \<Rightarrow> pa);
                         st4 = st3\<lparr>a_current_pkg := pkg, a_current_activity := act\<rparr>
                     in if ce_time_check env - a_last_hierarchy_update st4 > 0.3
                        then st4\<lparr>a_current_view_hierarchy :=
                                    update_view_hierarchy_adbpull (ce_refresh env)
                                      (a_current_view_hierarchy st4),
                                 a_last_hierarchy_update := ce_time_done env\<rparr>
                        else st4)
                  else st3)"

text \<open>The scan of \<open>adbpull.py\<close>: an event is written when complete or older than the timeout.\<close>

fun flush_loop_adbpull ::
  "real \<Rightarrow> ui_node list \<Rightarrow> (string \<times> pending_event) list \<Rightarrow> nat \<Rightarrow>
   json_obj list \<times> (string \<times> pending_event) list \<times> nat" where
  "flush_loop_adbpull now h [] n = ([], [], n)"
| "flush_loop_adbpull now h ((k, e) # rest) n =
     (let is_complete = (coord_x e \<noteq> None \<and> coord_y e \<noteq> None) in
      if is_complete \<or> now - created_at e > buffer_timeout then
        (let e' = (if is_complete
                   then e\<lparr>resource_id :=
                            find_resource_at_coordinates_adbpull h (coord_x e) (coord_y e)\<rparr>
                   else e);
             (out, keep, n') = flush_loop_adbpull now h rest (n + 1)
         in (to_json e' n # out, keep, n'))
      else
        (let (out, keep, n') = flush_loop_adbpull now h rest n
         in (out, (k, e) # keep, n')))"

text \<open>One pass of the loop of \<open>_process_buffer\<close> of \<open>adbpull.py\<close>.\<close>

definition process_buffer_adbpull :: "tick_env \<Rightarrow> recorder_a \<Rightarrow> recorder_a" where
  "process_buffer_adbpull env st =
     (let (out, keep, n') = flush_loop_adbpull (te_time env) (a_current_view_hierarchy st)
                              (a_pending_events st) (a_event_counter st)
      in st\<lparr>a_pending_events := keep, a_event_counter := n', a_output := a_output st @ out\<rparr>)"

subsection \<open>Runs of the recorder\<close>

text \<open>
  A run interleaves lines read from the stream with passes of the buffer loop. The two
  threads are modelled at this grain: a line is collected, or a pass is made, as a whole;
  the pauses between passes appear only as the clock readings of the passes.
\<close>

datatype step = Line collect_env string | Tick tick_env

fun run_r :: "step list \<Rightarrow> recorder_r \<Rightarrow> recorder_r" where
  "run_r [] st = st"
| "run_r (Line env line # steps) st = run_r steps (collect_event_data_r env line st)"
| "run_r (Tick env # steps) st = run_r steps (process_buffer_r env st)"

fun run_adbpull :: "step list \<Rightarrow> recorder_a \<Rightarrow> recorder_a" where
  "run_adbpull [] st = st"
| "run_adbpull (Line env line # steps) st =
     run_adbpull steps (collect_event_data_adbpull env line st)"
| "run_adbpull (Tick env # steps) st = run_adbpull steps (process_buffer_adbpull env st)"


section \<open>Replay driver\<close>

text \<open>A record of the events file, as the replayer reads its fields.\<close>

record replay_event =
  ev_timestamp :: string
  ev_package :: string
  ev_activity :: string
  ev_event_type :: string
  ev_x :: "int option"
  ev_y :: "int option"
  ev_extra_info :: string

text \<open>
  What the replayer does, in order: a line printed, a shell command run, a pause. The
  device's answer to a command (return code and standard error) is an input.
\<close>

datatype action = Print string | Run string | Sleep real

type_synonym responder = "string \<Rightarrow> int \<times> string"

text \<open>How an f-string renders a coordinate: \<open>None\<close> for null.\<close>

definition str_coord :: "int option \<Rightarrow> string" where
  "str_coord v = (case v of None \<Rightarrow> ''None'' | Some i \<Rightarrow> str_int i)"

definition tap_cmd :: "string \<Rightarrow> int option \<Rightarrow> int option \<Rightarrow> string" where
  "tap_cmd device_id px py =
     ''adb -s '' @ device_id @ '' shell input tap '' @ str_coord px @ '' '' @ str_coord py"

text \<open>\<open>_replay_touch_event\<close> of \<open>playx.py\<close>.\<close>

definition replay_touch_event_playx ::
  "string \<Rightarrow> responder \<Rightarrow> replay_event \<Rightarrow> action list" where
  "replay_touch_event_playx device_id respond event =
     (let px = ev_x event; py = ev_y event; et = ev_event_type event in
      if px = None \<or> py = None then
        [Print (''Skipping '' @ et @ '' event at timestamp '' @ ev_timestamp event @
                '' due to null coordinates'')]
      else if et = ''TOUCH_DOWN'' then
        (let cmd = tap_cmd device_id px py in
         [Print (''Replaying '' @ et @ '' at X:'' @ str_coord px @ '', Y:'' @ str_coord py),
          Run cmd] @
         (if fst (respond cmd) \<noteq> 0
          then [Print (''Error replaying touch event: '' @ snd (respond cmd))] else []) @
         [Sleep 0.1])
      else if et = ''TOUCH_UP'' then []
      else if et = ''MOTION'' then
        [Print (''Motion event at X:'' @ str_coord px @ '', Y:'' @ str_coord py @
                '' (not replayed)'')]
      else [])"

text \<open>\<open>_replay_touch_event\<close> of \<open>replayx.py\<close>.\<close>

definition replay_touch_event_replayx :: "string \<Rightarrow> replay_event \<Rightarrow> action list" where
  "replay_touch_event_replayx device_id event =
     (let px = ev_x event; py = ev_y event; et = ev_event_type event in
      if et = ''TOUCH_DOWN'' then
        [Print (''Touch down at X:'' @ str_coord px @ '', Y:'' @ str_coord py),
         Run (tap_cmd device_id px py),
         Sleep 0.1,
         Print (''Touch up at X:'' @ str_coord px @ '', Y:'' @ str_coord py)]
      else if et = ''TOUCH_UP'' then []
      else if et = ''MOTION'' then
        [Print (''Motion event at X:'' @ str_coord px @ '', Y:'' @ str_coord py @
                '' (not replayed)'')]
      else [])"

text \<open>\<open>s.upper()\<close> on ASCII text.\<close>

definition upper_char :: "char \<Rightarrow> char" where
  "upper_char c =
     (let n = (of_char c :: nat) in if 97 \<le> n \<and> n \<le> 122 then char_of (n - 32) else c)"

definition upper :: "string \<Rightarrow> string" where
  "upper s = map upper_char s"

text \<open>The table of \<open>_map_key_name_to_code\<close>, the same in \<open>playx.py\<close> and \<open>replayx.py\<close>.\<close>

definition key_map :: "(string \<times> string) list" where
  "key_map =
     [(''ENTER'', ''66''), (''BACK'', ''4''), (''HOME'', ''3''), (''MENU'', ''82''),
      (''VOLUME_UP'', ''24''), (''VOLUME_DOWN'', ''25'')]"

definition map_key_name_to_code :: "string \<Rightarrow> string option" where
  "map_key_name_to_code key_name = map_of key_map (upper key_name)"

text \<open>\<open>s.split(sep)[0]\<close>: the text before the first occurrence of a non-empty separator.\<close>

fun until_sep :: "string \<Rightarrow> string \<Rightarrow> string" where
  "until_sep sep [] = []"
| "until_sep sep (c # cs) = (if startswith (c # cs) sep then [] else c # until_sep sep cs)"

text \<open>
  \<open>_replay_key_event\<close> of \<open>playx.py\<close>. The key name is \<open>extra_info.split("Key:")[1]\<close>:
  what lies between the leading \<open>Key:\<close> and the next one, if any.
\<close>

definition replay_key_event_playx ::
  "string \<Rightarrow> responder \<Rightarrow> replay_event \<Rightarrow> action list" where
  "replay_key_event_playx device_id respond event =
     (let extra = ev_extra_info event in
      if startswith extra ''Key:'' then
        (let key_name = until_sep ''Key:'' (drop 4 extra) in
         case map_key_name_to_code key_name of
           None \<Rightarrow> []
         | Some key_code \<Rightarrow>
             if key_code = [] then []
             else
               (let cmd = ''adb -s '' @ device_id @ '' shell input keyevent '' @ key_code in
                [Print (''Replaying '' @ ev_event_type event @ '' for key: '' @ key_name @
                        '' (code: '' @ key_code @ '')''),
                 Run cmd] @
                (if fst (respond cmd) \<noteq> 0
                 then [Print (''Error replaying key event: '' @ snd (respond cmd))] else [])))
      else [])"

text \<open>
  The loop of \<open>replay_events\<close> of \<open>playx.py\<close> over the records, with \<open>running\<close> left
  set: each record is dispatched on its type, counted and followed by a pause.
\<close>

definition replay_one_playx :: "string \<Rightarrow> responder \<Rightarrow> replay_event \<Rightarrow> action list" where
  "replay_one_playx device_id respond event =
     (if ev_event_type event \<in> {''TOUCH_DOWN'', ''TOUCH_UP'', ''MOTION''}
      then replay_touch_event_playx device_id respond event
      else if ev_event_type event \<in> {''KEY_DOWN'', ''KEY_UP''}
      then replay_key_event_playx device_id respond event
      else [])"

fun replay_loop_playx ::
  "string \<Rightarrow> responder \<Rightarrow> nat \<Rightarrow> nat \<Rightarrow> replay_event list \<Rightarrow> action list" where
  "replay_loop_playx device_id respond n_events event_count [] = []"
| "replay_loop_playx device_id respond n_events event_count (event # events) =
     replay_one_playx device_id respond event @
     [Print (''Processed event '' @ str_nat (event_count + 1) @ ''/'' @ str_nat n_events),
      Sleep 0.05] @
     replay_loop_playx device_id respond n_events (event_count + 1) events"

section \<open>Reference notions for the statements\<close>

text \<open>
  The positional value of a run of digits in base \<open>b\<close>, against which the model of
  \<open>int()\<close> is checked.
\<close>

definition positional :: "nat \<Rightarrow> string \<Rightarrow> nat" where
  "positional b ds = foldl (\<lambda>a c. a * b + the (digit_value c)) 0 ds"

text \<open>Inputs at which the statements below are evaluated.\<close>

definition example_root :: ui_node where
  "example_root =
     \<lparr>node_x1 = 0, node_y1 = 0, node_x2 = 1080, node_y2 = 1920,
      node_resource_id = ''com.example:id/root'', node_content_desc = [], node_text = [],
      node_class = ''android.widget.FrameLayout'', node_package = ''com.example''\<rparr>"


definition key_back_event :: replay_event where
  "key_back_event =
     \<lparr>ev_timestamp = ''12:00:00.000'', ev_package = ''com.example'', ev_activity = ''.Main'',
      ev_event_type = ''KEY_DOWN'', ev_x = None, ev_y = None, ev_extra_info = ''Key:back''\<rparr>"

definition touch_down_null_event :: replay_event where
  "touch_down_null_event =
     \<lparr>ev_timestamp = ''12:00:00.000'', ev_package = ''com.example'', ev_activity = ''.Main'',
      ev_event_type = ''TOUCH_DOWN'', ev_x = None, ev_y = None, ev_extra_info = []\<rparr>"

text \<open>
  Answers to a refresh: one where the document on disk is no hierarchy at all (not XML,
  no node for the pattern to match), one where the dump times out.
\<close>

definition malformed_env :: refresh_env where
  "malformed_env =
     \<lparr>re_rm = Completed 0 [] [],
      re_dump = Completed 0 ''UI hierchary dumped to: /sdcard/window_dump.xml'' [],
      re_pull = Completed 0 [] [],
      re_local = Document None []\<rparr>"

definition timeout_env :: refresh_env where
  "timeout_env =
     \<lparr>re_rm = Completed 0 [] [], re_dump = TimeoutExpired, re_pull = Completed 0 [] [],
      re_local = Document (Some []) []\<rparr>"

text \<open>The five event kinds of the output format.\<close>

definition event_types :: "string set" where
  "event_types = {''TOUCH_DOWN'', ''TOUCH_UP'', ''MOTION'', ''KEY_DOWN'', ''KEY_UP''}"

text \<open>
  An event is complete when both coordinates are set, and expired at a clock reading
  when its age exceeds the timeout; \<open>resolved\<close> is the event as the scan writes it.
\<close>

definition is_complete :: "pending_event \<Rightarrow> bool" where
  "is_complete e = (coord_x e \<noteq> None \<and> coord_y e \<noteq> None)"

definition expired :: "real \<Rightarrow> pending_event \<Rightarrow> bool" where
  "expired now e = (now - created_at e > buffer_timeout)"

definition resolved_r :: "ui_node list \<Rightarrow> pending_event \<Rightarrow> pending_event" where
  "resolved_r h e =
     (if is_complete e
      then e\<lparr>resource_id := find_resource_at_coordinates_r h (coord_x e) (coord_y e)\<rparr>
      else e)"

definition resolved_adbpull :: "ui_node list \<Rightarrow> pending_event \<Rightarrow> pending_event" where
  "resolved_adbpull h e =
     (if is_complete e
      then e\<lparr>resource_id := find_resource_at_coordinates_adbpull h (coord_x e) (coord_y e)\<rparr>
      else e)"

text \<open>
  The entry \<open>r.py\<close> creates for a key that is not pending, the key it computes for a
  line, and the entry it then updates: the pending one, or a new one.
\<close>

definition fresh_event ::
  "string \<Rightarrow> string \<Rightarrow> string \<Rightarrow> string \<Rightarrow> string \<Rightarrow> real \<Rightarrow> pending_event" where
  "fresh_event ts dev pkg act ety t =
     \<lparr>timestamp = ts, device = dev, package = pkg, activity = act, event_type = ety,
      coord_x = None, coord_y = None, created_at = t, resource_id = ''unknown'',
      extra_info = []\<rparr>"

definition event_key_r :: "collect_env \<Rightarrow> string \<Rightarrow> recorder_r \<Rightarrow> string" where
  "event_key_r env line st =
     event_id_of (ce_timestamp env)
       (case ei_event_type (parse_event_r line) of None \<Rightarrow> ''UNKNOWN'' | Some t \<Rightarrow> t)
       (r_current_device st)"

definition base_event_r :: "collect_env \<Rightarrow> string \<Rightarrow> recorder_r \<Rightarrow> pending_event" where
  "base_event_r env line st =
     (case map_of (r_pending_events st) (event_key_r env line st) of
        Some e \<Rightarrow> e
      | None \<Rightarrow>
          fresh_event (ce_timestamp env) (r_current_device st) (r_current_pkg st)
            (r_current_activity st)
            (case ei_event_type (parse_event_r line) of None \<Rightarrow> ''UNKNOWN'' | Some t \<Rightarrow> t)
            (ce_time env))"

text \<open>The event kinds of the pending entries and of the records written lie in a set.\<close>

definition kinds_within ::
  "string set \<Rightarrow> (string \<times> pending_event) list \<Rightarrow> json_obj list \<Rightarrow> bool" where
  "kinds_within S pend out =
     ((\<forall>(k, e)\<in>set pend. event_type e \<in> S) \<and> (\<forall>j\<in>set out. j_event_type j \<in> S))"

text \<open>
  Answers of a quiet device (no document to pull), the surroundings of a line read at a
  given wall clock and clock reading, and those of a pass at a given clock reading.
\<close>

definition idle_refresh :: refresh_env where
  "idle_refresh =
     \<lparr>re_rm = Completed 0 [] [], re_dump = Completed 0 [] [], re_pull = Completed 1 [] [],
      re_local = Missing\<rparr>"

definition at_time :: "string \<Rightarrow> real \<Rightarrow> collect_env" where
  "at_time ts t =
     \<lparr>ce_timestamp = ts, ce_time = t, ce_focus = None, ce_time_check = t,
      ce_refresh = idle_refresh, ce_time_done = t\<rparr>"

definition tick_at :: "real \<Rightarrow> tick_env" where
  "tick_at t = \<lparr>te_time = t, te_refresh = idle_refresh\<rparr>"

text \<open>Lines of the stream: a horizontal and a vertical position, a frame boundary, a touch.\<close>

definition x_line :: string where
  "x_line = ''[ 12.3] EV_ABS ABS_MT_POSITION_X 0x64''"



definition touch_line :: string where
  "touch_line = ''[ 17.3] EV_KEY BTN_TOUCH DOWN''"


definition complete_event :: pending_event where
  "complete_event =
     \<lparr>timestamp = ''12:00:00.000'', device = ''/dev/input/event1'', package = ''com.example'',
      activity = ''.Main'', event_type = ''MOTION'', coord_x = Some 50, coord_y = Some 20,
      created_at = 1000, resource_id = ''unknown'', extra_info = []\<rparr>"

definition holding_a :: recorder_a where
  "holding_a =
     init_a\<lparr>a_pending_events := [(''12:00:00.000_MOTION_/dev/input/event1'', complete_event)],
            a_current_view_hierarchy := [example_root]\<rparr>"


section \<open>Verified properties\<close>


subsection \<open>Tokens and numbers\<close>


lemma startswith_set: "startswith s p \<Longrightarrow> set p \<subseteq> set s"
  unfolding startswith_def by (metis set_take_subset)

lemma startswith_Cons: "startswith s (c # p) \<Longrightarrow> c \<in> set s"
  using startswith_set by fastforce

lemma startswith_second: "startswith s [c, d] \<Longrightarrow> d \<in> set s"
  using startswith_set by fastforce




text \<open>
  On a plain run of digits the model of \<open>int()\<close> yields the positional value, in base ten
  and in base sixteen alike.
\<close>

lemma digit_value_special:
  "digit_value (CHR ''x'') = Some 33" "digit_value (CHR ''X'') = Some 33"
  "digit_value (CHR ''_'') = None" "digit_value (CHR ''+'') = None"
  "digit_value (CHR ''-'') = None"
  by (simp_all add: digit_value_def)

lemma digit_not_space: "digit_value c = Some d \<Longrightarrow> \<not> is_int_space c"
  by (auto simp: digit_value_def is_int_space_def Let_def split: if_splits)

lemma scan_digits_plain:
  assumes "\<forall>c\<in>set ds. c \<noteq> CHR ''_'' \<and> (\<exists>d. digit_value c = Some d \<and> d < b)"
  shows "scan_digits b prev acc ds =
           (if ds = [] \<and> prev = CHR ''_'' then None
            else Some (foldl (\<lambda>a c. a * b + the (digit_value c)) acc ds))"
  using assms
proof (induction ds arbitrary: prev acc)
  case Nil
  then show ?case by simp
next
  case (Cons c cs)
  from Cons.prems obtain d where d: "c \<noteq> CHR ''_''" "digit_value c = Some d" "d < b"
    by auto
  from Cons.prems
  have "\<forall>c\<in>set cs. c \<noteq> CHR ''_'' \<and> (\<exists>d. digit_value c = Some d \<and> d < b)"
    by simp
  from Cons.IH [OF this, of c "acc * b + d"] d show ?case by simp
qed

lemma strip_ws_plain:
  assumes "s \<noteq> []" and "\<not> is_int_space (hd s)" and "\<not> is_int_space (last s)"
  shows "strip_ws s = s"
proof -
  from assms(1,2) have a: "dropWhile is_int_space s = s" by (cases s) auto
  from assms(1,3) have "dropWhile is_int_space (rev s) = rev s"
    by (cases "rev s") (auto simp: last_rev [symmetric] hd_rev)
  with a show ?thesis by (simp add: strip_ws_def)
qed

lemma py_int_plain:
  assumes "ds \<noteq> []" and "b \<le> 16"
    and "\<forall>c\<in>set ds. \<exists>d. digit_value c = Some d \<and> d < b"
  shows "py_int b ds = Some (int (positional b ds))"
proof -
  have nosp: "\<not> is_int_space c" if "c \<in> set ds" for c
    using that assms(3) digit_not_space by blast
  have plain: "c \<noteq> CHR ''_'' \<and> c \<noteq> CHR ''+'' \<and> c \<noteq> CHR ''-'' \<and> c \<noteq> CHR ''x'' \<and> c \<noteq> CHR ''X''"
    if "c \<in> set ds" for c
  proof -
    from that assms(3) obtain d where "digit_value c = Some d" "d < b" by blast
    with assms(2) show ?thesis using digit_value_special by auto
  qed
  have strip: "strip_ws ds = ds"
    using assms(1) nosp by (intro strip_ws_plain) auto
  have nosign: "\<not> startswith ds ''+''" "\<not> startswith ds ''-''" "\<not> startswith ds ''_''"
    using plain startswith_Cons by blast+
  have nox: "\<not> startswith ds ''0x''" "\<not> startswith ds ''0X''"
    using plain startswith_second by blast+
  have "scan_digits b (CHR ''0'') 0 ds = Some (positional b ds)"
    unfolding positional_def using assms(1,3) plain by (simp add: scan_digits_plain)
  then show ?thesis
    using assms(1) strip nosign nox by (simp add: py_int_def Let_def)
qed

subsection \<open>The tokenizer on position reports\<close>



subsection \<open>The tokenizer on touch-button lines\<close>

text \<open>
  Claim C10, as stated, fails: a line that holds \<open>BTN_TOUCH\<close> after a marker of an axis
  is taken by the branch of that axis, and the tokenizer of \<open>r.py\<close> gives it a coordinate
  and no event kind.
\<close>

theorem btn_touch_after_axis_marker_counterexample:
  "contains ''BTN_TOUCH'' ''ABS_X BTN_TOUCH DOWN 5'' \<and>
   parse_event_r ''ABS_X BTN_TOUCH DOWN 5'' = no_info\<lparr>ei_x := Some 5\<rparr> \<and>
   ei_event_type (parse_event_r ''ABS_X BTN_TOUCH DOWN 5'') = None"
proof -
  have "contains ''BTN_TOUCH'' ''ABS_X BTN_TOUCH DOWN 5''" by code_simp
  moreover have "parse_event_r ''ABS_X BTN_TOUCH DOWN 5'' = no_info\<lparr>ei_x := Some 5\<rparr>"
    by code_simp
  ultimately show ?thesis by (simp add: no_info_def)
qed

text \<open>
  Claim C10, amended. A line that holds \<open>BTN_TOUCH\<close> and none of the six markers the
  tokenizers test before it (the position and pressure markers) is given an event kind by
  \<open>r.py\<close>: \<open>TOUCH_DOWN\<close> if it holds \<open>DOWN\<close>, \<open>TOUCH_UP\<close> otherwise, also when it holds
  no \<open>UP\<close>. \<open>adbpull.py\<close> gives \<open>TOUCH_DOWN\<close> if the line holds \<open>DOWN\<close>, else \<open>TOUCH_UP\<close>
  if it holds \<open>UP\<close>, and else no kind at all.
\<close>

theorem btn_touch_kind:
  assumes "contains ''BTN_TOUCH'' line"
    and "\<not> contains ''ABS_MT_POSITION_X'' line" and "\<not> contains ''ABS_X'' line"
    and "\<not> contains ''ABS_MT_POSITION_Y'' line" and "\<not> contains ''ABS_Y'' line"
    and "\<not> contains ''ABS_MT_PRESSURE'' line" and "\<not> contains ''ABS_PRESSURE'' line"
  shows "parse_event_r line =
           no_info\<lparr>ei_event_type :=
             Some (if contains ''DOWN'' line then ''TOUCH_DOWN'' else ''TOUCH_UP'')\<rparr> \<and>
         parse_event_adbpull line =
           (if contains ''DOWN'' line then no_info\<lparr>ei_event_type := Some ''TOUCH_DOWN''\<rparr>
            else if contains ''UP'' line then no_info\<lparr>ei_event_type := Some ''TOUCH_UP''\<rparr>
            else no_info)"
  using assms by (simp add: parse_event_r_def parse_event_adbpull_def)

text \<open>The theorem at a garbled touch-button line, with neither \<open>DOWN\<close> nor \<open>UP\<close>.\<close>

theorem btn_touch_kind_witness:
  "contains ''BTN_TOUCH'' ''EV_KEY BTN_TOUCH ???'' \<and>
   \<not> contains ''DOWN'' ''EV_KEY BTN_TOUCH ???'' \<and>
   \<not> contains ''UP'' ''EV_KEY BTN_TOUCH ???'' \<and>
   parse_event_r ''EV_KEY BTN_TOUCH ???'' = no_info\<lparr>ei_event_type := Some ''TOUCH_UP''\<rparr> \<and>
   parse_event_adbpull ''EV_KEY BTN_TOUCH ???'' = no_info"
proof -
  have h: "contains ''BTN_TOUCH'' ''EV_KEY BTN_TOUCH ???''"
    "\<not> contains ''ABS_MT_POSITION_X'' ''EV_KEY BTN_TOUCH ???''"
    "\<not> contains ''ABS_X'' ''EV_KEY BTN_TOUCH ???''"
    "\<not> contains ''ABS_MT_POSITION_Y'' ''EV_KEY BTN_TOUCH ???''"
    "\<not> contains ''ABS_Y'' ''EV_KEY BTN_TOUCH ???''"
    "\<not> contains ''ABS_MT_PRESSURE'' ''EV_KEY BTN_TOUCH ???''"
    "\<not> contains ''ABS_PRESSURE'' ''EV_KEY BTN_TOUCH ???''"
    by code_simp+
  have d: "\<not> contains ''DOWN'' ''EV_KEY BTN_TOUCH ???''"
    "\<not> contains ''UP'' ''EV_KEY BTN_TOUCH ???''"
    by code_simp+
  from btn_touch_kind [OF h] d h(1) show ?thesis by simp
qed


subsection \<open>Resolving a point against the snapshot\<close>






subsection \<open>Replay of key events\<close>

lemma upper_char_lower:
  "97 \<le> (of_char c :: nat) \<and> (of_char c :: nat) \<le> 122 \<Longrightarrow>
     upper_char c = char_of (of_char c - 32 :: nat)"
  by (simp add: upper_char_def Let_def)

lemma upper_char_other:
  "\<not> (97 \<le> (of_char c :: nat) \<and> (of_char c :: nat) \<le> 122) \<Longrightarrow> upper_char c = c"
  unfolding upper_char_def Let_def by (simp only: if_False)

lemma upper_char_idem: "upper_char (upper_char c) = upper_char c"
proof (cases "97 \<le> (of_char c :: nat) \<and> (of_char c :: nat) \<le> 122")
  case True
  define d where "d = char_of (of_char c - 32 :: nat)"
  from True have "(of_char c - 32 :: nat) < 256" by arith
  then have "(of_char c - 32 :: nat) mod 256 = of_char c - 32" by (rule mod_less)
  then have "(of_char d :: nat) = of_char c - 32" by (simp add: d_def)
  with True have "\<not> (97 \<le> (of_char d :: nat) \<and> (of_char d :: nat) \<le> 122)" by arith
  then have "upper_char d = d" by (rule upper_char_other)
  moreover from True have "upper_char c = d" unfolding d_def by (rule upper_char_lower)
  ultimately show ?thesis by simp
next
  case False
  then have "upper_char c = c" by (rule upper_char_other)
  then show ?thesis by simp
qed

lemma upper_idem: "upper (upper s) = upper s"
  by (simp add: upper_def upper_char_idem)

text \<open>
  Claim C9. The mapping from key names to key codes, the same in \<open>playx.py\<close> and
  \<open>replayx.py\<close>, does not depend on letter case: a name and its upper-case form map alike,
  to the code of the table when the upper-case form is one of its six names and to
  \<open>None\<close> otherwise. (Key names are ASCII text here.)
\<close>

theorem map_key_name_to_code_case:
  "map_key_name_to_code s = map_key_name_to_code (upper s) \<and>
   map_key_name_to_code s =
     (if upper s = ''ENTER'' then Some ''66''
      else if upper s = ''BACK'' then Some ''4''
      else if upper s = ''HOME'' then Some ''3''
      else if upper s = ''MENU'' then Some ''82''
      else if upper s = ''VOLUME_UP'' then Some ''24''
      else if upper s = ''VOLUME_DOWN'' then Some ''25''
      else None)"
  by (simp add: map_key_name_to_code_def upper_idem key_map_def)

text \<open>
  The theorem at lower-case, upper-case, mixed-case and unmapped names; a record with
  \<open>Key:back\<close> is replayed as key code 4.
\<close>

theorem map_key_name_to_code_case_witness:
  "upper ''back'' = ''BACK'' \<and>
   map_key_name_to_code ''back'' = Some ''4'' \<and>
   map_key_name_to_code ''BACK'' = Some ''4'' \<and>
   map_key_name_to_code ''Volume_Down'' = Some ''25'' \<and>
   map_key_name_to_code ''POWER'' = None \<and>
   replay_key_event_playx ''emulator-5554'' (\<lambda>cmd. (0, [])) key_back_event =
     [Print ''Replaying KEY_DOWN for key: back (code: 4)'',
      Run ''adb -s emulator-5554 shell input keyevent 4'']"
proof -
  have u: "upper ''back'' = ''BACK''" "upper ''BACK'' = ''BACK''"
    "upper ''Volume_Down'' = ''VOLUME_DOWN''" "upper ''POWER'' = ''POWER''"
    by code_simp+
  have k: "startswith ''Key:back'' ''Key:''" "until_sep ''Key:'' (drop 4 ''Key:back'') = ''back''"
    by (simp_all add: startswith_def)
  from map_key_name_to_code_case [of "''back''", THEN conjunct2] u
  have b: "map_key_name_to_code ''back'' = Some ''4''" by simp
  from map_key_name_to_code_case [of "''BACK''", THEN conjunct2] u
  have b2: "map_key_name_to_code ''BACK'' = Some ''4''" by simp
  from map_key_name_to_code_case [of "''Volume_Down''", THEN conjunct2] u
  have v: "map_key_name_to_code ''Volume_Down'' = Some ''25''" by simp
  from map_key_name_to_code_case [of "''POWER''", THEN conjunct2] u
  have p: "map_key_name_to_code ''POWER'' = None" by simp
  have "replay_key_event_playx ''emulator-5554'' (\<lambda>cmd. (0, [])) key_back_event =
     [Print ''Replaying KEY_DOWN for key: back (code: 4)'',
      Run ''adb -s emulator-5554 shell input keyevent 4'']"
    using k b by (simp add: replay_key_event_playx_def key_back_event_def)
  with u b b2 v p show ?thesis by simp
qed

subsection \<open>Replay of touch events with null coordinates\<close>

text \<open>
  \<open>playx.py\<close> skips a touch record whose \<open>x\<close> or \<open>y\<close> is null with one printed warning
  and runs no command; its loop then goes on with the records that follow.
\<close>

lemma playx_skips_null_coordinates:
  assumes "ev_x event = None \<or> ev_y event = None"
    and "ev_event_type event \<in> {''TOUCH_DOWN'', ''TOUCH_UP'', ''MOTION''}"
  shows "replay_one_playx device_id respond event =
           [Print (''Skipping '' @ ev_event_type event @ '' event at timestamp '' @
                   ev_timestamp event @ '' due to null coordinates'')]"
    and "replay_loop_playx device_id respond n_events k (event # events) =
           [Print (''Skipping '' @ ev_event_type event @ '' event at timestamp '' @
                   ev_timestamp event @ '' due to null coordinates''),
            Print (''Processed event '' @ str_nat (k + 1) @ ''/'' @ str_nat n_events),
            Sleep 0.05] @
           replay_loop_playx device_id respond n_events (k + 1) events"
  using assms by (auto simp: replay_one_playx_def replay_touch_event_playx_def Let_def)

text \<open>
  Claim C8 fails on \<open>replayx.py\<close>, whose \<open>_replay_touch_event\<close> has no test for null
  coordinates: for a \<open>TOUCH_DOWN\<close> record with null coordinates it prints no warning and
  runs a tap command built from the text \<open>None\<close>.
\<close>

theorem replayx_taps_null_coordinates:
  "replay_touch_event_replayx ''emulator-5554'' touch_down_null_event =
     [Print ''Touch down at X:None, Y:None'',
      Run ''adb -s emulator-5554 shell input tap None None'',
      Sleep 0.1,
      Print ''Touch up at X:None, Y:None'']"
  by (simp add: replay_touch_event_replayx_def touch_down_null_event_def tap_cmd_def
      str_coord_def)


subsection \<open>Refresh of the snapshot\<close>

text \<open>
  Claim C6, as stated, fails on \<open>adbpull.py\<close>: it never rejects a document. When the
  document on disk is malformed, the snapshot is emptied first and the pattern then finds
  nothing to append, so a point that resolved to a node resolves to \<open>unknown\<close> afterwards.
\<close>

theorem refresh_malformed_document_counterexample:
  "update_view_hierarchy_adbpull malformed_env [example_root] = [] \<and>
   find_resource_at_coordinates_adbpull [example_root] (Some 50) (Some 20) =
     ''com.example:id/root'' \<and>
   find_resource_at_coordinates_adbpull
     (update_view_hierarchy_adbpull malformed_env [example_root]) (Some 50) (Some 20) =
     ''unknown''"
  by (simp add: update_view_hierarchy_adbpull_def malformed_env_def
      find_resource_at_coordinates_adbpull_def node_contains_def example_root_def
      label_adbpull_def)

text \<open>
  Claim C6, amended. A refresh leaves the stored snapshot, and with it every result of
  resolving a point, exactly as it was: in \<open>r.py\<close> when one of its three commands times
  out or raises, when the document is missing or unreadable after the pull, or when the
  document does not parse as XML; in \<open>adbpull.py\<close> when one of its two commands times out
  or raises, or when the document is missing or unreadable. \<open>adbpull.py\<close> takes any
  document that exists: the snapshot becomes the nodes its pattern matches. Neither
  variant reads the return code of the pull, so a pull that fails is noticed only through
  a missing document.
\<close>

theorem refresh_failure_keeps_snapshot:
  "((\<forall>rc out err. re_rm env \<noteq> Completed rc out err) \<or>
    (\<forall>rc out err. re_dump env \<noteq> Completed rc out err) \<or>
    (\<forall>rc out err. re_pull env \<noteq> Completed rc out err) \<or>
    re_local env = Missing \<or> re_local env = Unreadable \<or>
    (\<exists>ms. re_local env = Document None ms) \<longrightarrow>
      update_view_hierarchy_r env h = h \<and>
      find_resource_at_coordinates_r (update_view_hierarchy_r env h) px py =
        find_resource_at_coordinates_r h px py) \<and>
   ((\<forall>rc out err. re_dump env \<noteq> Completed rc out err) \<or>
    (\<forall>rc out err. re_pull env \<noteq> Completed rc out err) \<or>
    re_local env = Missing \<or> re_local env = Unreadable \<longrightarrow>
      update_view_hierarchy_adbpull env h = h \<and>
      find_resource_at_coordinates_adbpull (update_view_hierarchy_adbpull env h) px py =
        find_resource_at_coordinates_adbpull h px py) \<and>
   ((\<exists>rc out err. re_dump env = Completed rc out err) \<and>
    (\<exists>rc out err. re_pull env = Completed rc out err) \<and>
    re_local env = Document xml ms \<longrightarrow>
      update_view_hierarchy_adbpull env h = build_hierarchy_adbpull [] ms) \<and>
   update_view_hierarchy_adbpull (env\<lparr>re_pull := Completed rc out err\<rparr>) h =
     update_view_hierarchy_adbpull (env\<lparr>re_pull := Completed 0 [] []\<rparr>) h \<and>
   update_view_hierarchy_r (env\<lparr>re_pull := Completed rc out err\<rparr>) h =
     update_view_hierarchy_r (env\<lparr>re_pull := Completed 0 [] []\<rparr>) h"
proof -
  have r: "update_view_hierarchy_r env h = h"
    if "(\<forall>rc out err. re_rm env \<noteq> Completed rc out err) \<or>
        (\<forall>rc out err. re_dump env \<noteq> Completed rc out err) \<or>
        (\<forall>rc out err. re_pull env \<noteq> Completed rc out err) \<or>
        re_local env = Missing \<or> re_local env = Unreadable \<or>
        (\<exists>ms. re_local env = Document None ms)"
    using that
    by (auto simp: update_view_hierarchy_r_def
        split: cmd_outcome.splits local_doc.splits option.splits)
  have a: "update_view_hierarchy_adbpull env h = h"
    if "(\<forall>rc out err. re_dump env \<noteq> Completed rc out err) \<or>
        (\<forall>rc out err. re_pull env \<noteq> Completed rc out err) \<or>
        re_local env = Missing \<or> re_local env = Unreadable"
    using that
    by (auto simp: update_view_hierarchy_adbpull_def
        split: cmd_outcome.splits local_doc.splits)
  have m: "update_view_hierarchy_adbpull env h = build_hierarchy_adbpull [] ms"
    if "(\<exists>rc out err. re_dump env = Completed rc out err) \<and>
        (\<exists>rc out err. re_pull env = Completed rc out err) \<and>
        re_local env = Document xml ms"
    using that by (auto simp: update_view_hierarchy_adbpull_def)
  have p: "update_view_hierarchy_adbpull (env\<lparr>re_pull := Completed rc out err\<rparr>) h =
     update_view_hierarchy_adbpull (env\<lparr>re_pull := Completed 0 [] []\<rparr>) h"
    by (simp add: update_view_hierarchy_adbpull_def split: cmd_outcome.splits)
  have q: "update_view_hierarchy_r (env\<lparr>re_pull := Completed rc out err\<rparr>) h =
     update_view_hierarchy_r (env\<lparr>re_pull := Completed 0 [] []\<rparr>) h"
    by (simp add: update_view_hierarchy_r_def split: cmd_outcome.splits)
  from r a m p q show ?thesis by simp
qed

text \<open>
  The theorem at a dump that times out (both variants keep the snapshot), at a document
  that is not XML (\<open>r.py\<close> keeps the snapshot), and at that same document in
  \<open>adbpull.py\<close> (the snapshot becomes what the pattern matched: nothing).
\<close>

theorem refresh_failure_keeps_snapshot_witness:
  "re_dump timeout_env = TimeoutExpired \<and>
   update_view_hierarchy_r timeout_env [example_root] = [example_root] \<and>
   update_view_hierarchy_adbpull timeout_env [example_root] = [example_root] \<and>
   find_resource_at_coordinates_r (update_view_hierarchy_r timeout_env [example_root])
     (Some 50) (Some 20) = ''com.example:id/root'' \<and>
   re_local malformed_env = Document None [] \<and>
   update_view_hierarchy_r malformed_env [example_root] = [example_root] \<and>
   update_view_hierarchy_adbpull malformed_env [example_root] = []"
proof -
  have t: "re_dump timeout_env = TimeoutExpired" by (simp add: timeout_env_def)
  then have nt: "\<forall>rc out err. re_dump timeout_env \<noteq> Completed rc out err" by simp
  have l: "re_local malformed_env = Document None []"
    "\<exists>rc out err. re_dump malformed_env = Completed rc out err"
    "\<exists>rc out err. re_pull malformed_env = Completed rc out err"
    by (simp_all add: malformed_env_def)
  have f: "find_resource_at_coordinates_r [example_root] (Some 50) (Some 20) =
      ''com.example:id/root''"
    by (simp add: find_resource_at_coordinates_r_def node_contains_def example_root_def
        label_r_def)
  note thm_t = refresh_failure_keeps_snapshot
    [of timeout_env "[example_root]" "Some 50" "Some 20" "Some []" "[]"]
  note thm_m = refresh_failure_keeps_snapshot
    [of malformed_env "[example_root]" "Some 50" "Some 20" None "[]"]
  from thm_t nt have k1: "update_view_hierarchy_r timeout_env [example_root] = [example_root]"
    "update_view_hierarchy_adbpull timeout_env [example_root] = [example_root]"
    by blast+
  from thm_m l have k2: "update_view_hierarchy_r malformed_env [example_root] = [example_root]"
    "update_view_hierarchy_adbpull malformed_env [example_root] = []"
    by auto
  from t l(1) k1 k2 f show ?thesis by simp
qed


section \<open>The aggregator\<close>

subsection \<open>What a fragment with an event kind carries\<close>

text \<open>
  A fragment with an event kind has one of the five kinds and carries no coordinate: the
  branches of the tokenizers exclude each other.
\<close>

lemma parse_event_r_kind:
  assumes "ei_event_type (parse_event_r line) = Some t"
  shows "t \<in> event_types \<and> ei_x (parse_event_r line) = None \<and> ei_y (parse_event_r line) = None"
proof -
  show ?thesis
  proof (cases "contains ''ABS_MT_POSITION_X'' line \<or> contains ''ABS_X'' line")
    case X: True
    from assms X show ?thesis
      by (simp add: parse_event_r_def no_info_def event_types_def split: option.splits if_splits)
  next
    case nX: False
    show ?thesis
    proof (cases "contains ''ABS_MT_POSITION_Y'' line \<or> contains ''ABS_Y'' line")
      case Y: True
      from assms nX Y show ?thesis
        by (simp add: parse_event_r_def no_info_def event_types_def split: option.splits if_splits)
    next
      case nY: False
      show ?thesis
      proof (cases "contains ''ABS_MT_PRESSURE'' line \<or> contains ''ABS_PRESSURE'' line")
        case P: True
        from assms nX nY P show ?thesis
          by (simp add: parse_event_r_def no_info_def event_types_def split: option.splits if_splits)
      next
        case nP: False
        show ?thesis
        proof (cases "contains ''BTN_TOUCH'' line")
          case B: True
          from assms nX nY nP B show ?thesis
            by (simp add: parse_event_r_def no_info_def event_types_def split: option.splits if_splits)
        next
          case nB: False
          show ?thesis
          proof (cases "contains ''ABS_MT_TRACKING_ID'' line")
            case T: True
            from assms nX nY nP nB T show ?thesis
              by (simp add: parse_event_r_def no_info_def event_types_def split: option.splits if_splits)
          next
            case nT: False
            show ?thesis
            proof (cases "contains ''EV_SYN SYN_REPORT'' line")
              case S: True
              from assms nX nY nP nB nT S show ?thesis
                by (simp add: parse_event_r_def no_info_def event_types_def split: option.splits if_splits)
            next
              case nS: False
              show ?thesis
              proof (cases "contains ''EV_KEY'' line")
                case K: True
                from assms nX nY nP nB nT nS K show ?thesis
                  by (simp add: parse_event_r_def no_info_def event_types_def split: option.splits if_splits)
              next
                case nK: False
                from nX nY nP nB nT nS nK have "parse_event_r line = no_info" by (simp add: parse_event_r_def)
                with assms show ?thesis by (simp add: no_info_def)
              qed
            qed
          qed
        qed
      qed
    qed
  qed
qed

lemma parse_event_adbpull_kind:
  assumes "ei_event_type (parse_event_adbpull line) = Some t"
  shows "t \<in> event_types \<and> ei_x (parse_event_adbpull line) = None \<and> ei_y (parse_event_adbpull line) = None"
proof -
  show ?thesis
  proof (cases "contains ''ABS_MT_POSITION_X'' line \<or> contains ''ABS_X'' line")
    case X: True
    from assms X show ?thesis
      by (simp add: parse_event_adbpull_def no_info_def event_types_def split: option.splits if_splits)
  next
    case nX: False
    show ?thesis
    proof (cases "contains ''ABS_MT_POSITION_Y'' line \<or> contains ''ABS_Y'' line")
      case Y: True
      from assms nX Y show ?thesis
        by (simp add: parse_event_adbpull_def no_info_def event_types_def split: option.splits if_splits)
    next
      case nY: False
      show ?thesis
      proof (cases "contains ''ABS_MT_PRESSURE'' line \<or> contains ''ABS_PRESSURE'' line")
        case P: True
        from assms nX nY P show ?thesis
          by (simp add: parse_event_adbpull_def no_info_def event_types_def split: option.splits if_splits)
      next
        case nP: False
        show ?thesis
        proof (cases "contains ''BTN_TOUCH'' line")
          case B: True
          from assms nX nY nP B show ?thesis
            by (simp add: parse_event_adbpull_def no_info_def event_types_def split: option.splits if_splits)
        next
          case nB: False
          show ?thesis
          proof (cases "contains ''ABS_MT_TRACKING_ID'' line")
            case T: True
            from assms nX nY nP nB T show ?thesis
              by (simp add: parse_event_adbpull_def no_info_def event_types_def split: option.splits if_splits)
          next
            case nT: False
            show ?thesis
            proof (cases "contains ''EV_SYN SYN_REPORT'' line")
              case S: True
              from assms nX nY nP nB nT S show ?thesis
                by (simp add: parse_event_adbpull_def no_info_def event_types_def split: option.splits if_splits)
            next
              case nS: False
              show ?thesis
              proof (cases "contains ''EV_KEY'' line")
                case K: True
                from assms nX nY nP nB nT nS K show ?thesis
                  by (simp add: parse_event_adbpull_def no_info_def event_types_def split: option.splits if_splits)
              next
                case nK: False
                from nX nY nP nB nT nS nK have "parse_event_adbpull line = no_info" by (simp add: parse_event_adbpull_def)
                with assms show ?thesis by (simp add: no_info_def)
              qed
            qed
          qed
        qed
      qed
    qed
  qed
qed


subsection \<open>The dictionary of pending events\<close>

lemma dict_set_subset: "set (dict_set k v d) \<subseteq> insert (k, v) (set d)"
  by (induction d) (auto split: if_splits)


lemma map_of_dict_set: "map_of (dict_set k v d) = (map_of d)(k \<mapsto> v)"
  by (induction d) auto

lemma dict_set_new: "map_of d k = None \<Longrightarrow> dict_set k v d = d @ [(k, v)]"
  by (induction d) (auto split: if_splits)

lemma dict_set_other: "(k', v') \<in> set d \<Longrightarrow> k' \<noteq> k \<Longrightarrow> (k', v') \<in> set (dict_set k v d)"
  by (induction d) auto

lemma refresh_app_info_r_event:
  assumes "refresh_app_info_r env (e, st) = (e', st')"
  shows "event_type e' = event_type e \<and> coord_x e' = coord_x e \<and> coord_y e' = coord_y e \<and>
         resource_id e' = resource_id e \<and> created_at e' = created_at e \<and>
         timestamp e' = timestamp e \<and> device e' = device e \<and> extra_info e' = extra_info e"
  using assms
  by (auto simp: refresh_app_info_r_def Let_def split: option.splits prod.splits if_splits)

lemma refresh_app_info_r_state:
  assumes "refresh_app_info_r env (e, st) = (e', st')"
  shows "r_pending_events st' = r_pending_events st \<and> r_output st' = r_output st \<and>
         r_current_device st' = r_current_device st \<and>
         r_current_view_hierarchy st' = r_current_view_hierarchy st \<and>
         r_event_counter st' = r_event_counter st"
  using assms
  by (auto simp: refresh_app_info_r_def Let_def split: option.splits prod.splits if_splits)


subsection \<open>Collecting one line\<close>

lemma collect_r_pending:
  assumes "\<not> startswith line ''/dev/input/''"
  shows "\<exists>ev. r_pending_events (collect_event_data_r env line st) =
                dict_set (event_key_r env line st) ev (r_pending_events st) \<and>
              r_output (collect_event_data_r env line st) = r_output st \<and>
              r_current_view_hierarchy (collect_event_data_r env line st) =
                r_current_view_hierarchy st \<and>
              event_type ev = (case ei_event_type (parse_event_r line) of
                                 None \<Rightarrow> event_type (base_event_r env line st) | Some t \<Rightarrow> t) \<and>
              coord_x ev = (case ei_x (parse_event_r line) of
                              None \<Rightarrow> coord_x (base_event_r env line st) | Some v \<Rightarrow> Some v) \<and>
              coord_y ev = (case ei_y (parse_event_r line) of
                              None \<Rightarrow> coord_y (base_event_r env line st) | Some v \<Rightarrow> Some v) \<and>
              resource_id ev = resource_id (base_event_r env line st) \<and>
              created_at ev = created_at (base_event_r env line st)"
proof -
  obtain a b c d where info:
    "parse_event_r line = \<lparr>ei_x = a, ei_y = b, ei_event_type = c, ei_extra_info = d\<rparr>"
    by (cases "parse_event_r line")
  define base where "base = base_event_r env line st"
  define e1 where "e1 = (case a of None \<Rightarrow> base | Some v \<Rightarrow> base\<lparr>coord_x := Some v\<rparr>)"
  define e2 where "e2 = (case b of None \<Rightarrow> e1 | Some v \<Rightarrow> e1\<lparr>coord_y := Some v\<rparr>)"
  define e3 where "e3 = (case d of None \<Rightarrow> e2 | Some v \<Rightarrow> e2\<lparr>extra_info := v\<rparr>)"
  have e3: "event_type e3 = event_type base"
    "coord_x e3 = (case a of None \<Rightarrow> coord_x base | Some v \<Rightarrow> Some v)"
    "coord_y e3 = (case b of None \<Rightarrow> coord_y base | Some v \<Rightarrow> Some v)"
    "resource_id e3 = resource_id base" "created_at e3 = created_at base"
    by (simp_all add: e3_def e2_def e1_def split: option.splits)
  have body: "collect_event_data_r env line st =
      (let (event4, st1) =
             (case c of
                None \<Rightarrow> (e3, st)
              | Some t \<Rightarrow>
                  if t = ''TOUCH_DOWN'' \<or> t = ''KEY_DOWN''
                  then refresh_app_info_r env (e3\<lparr>event_type := t\<rparr>, st)
                  else (e3\<lparr>event_type := t\<rparr>, st))
       in st1\<lparr>r_pending_events :=
                dict_set (event_key_r env line st) event4 (r_pending_events st)\<rparr>)"
    using assms
    by (cases a; cases b; cases c; cases d)
       (simp_all add: collect_event_data_r_def Let_def info e3_def e2_def e1_def base_def
          base_event_r_def event_key_r_def fresh_event_def cong: option.case_cong)
  show ?thesis
  proof (cases c)
    case None
    with body e3 show ?thesis
      unfolding info base_def by (intro exI [of _ e3]) simp
  next
    case (Some t)
    show ?thesis
    proof (cases "t = ''TOUCH_DOWN'' \<or> t = ''KEY_DOWN''")
      case False
      with body e3 Some show ?thesis
        unfolding info base_def by (intro exI [of _ "e3\<lparr>event_type := t\<rparr>"]) simp
    next
      case True
      obtain e4 s1 where r: "refresh_app_info_r env (e3\<lparr>event_type := t\<rparr>, st) = (e4, s1)"
        by (cases "refresh_app_info_r env (e3\<lparr>event_type := t\<rparr>, st)")
      with body Some True have "collect_event_data_r env line st =
          s1\<lparr>r_pending_events := dict_set (event_key_r env line st) e4 (r_pending_events st)\<rparr>"
        by simp
      with e3 Some refresh_app_info_r_event [OF r] refresh_app_info_r_state [OF r]
      show ?thesis
        unfolding info base_def by (intro exI [of _ e4]) simp
    qed
  qed
qed

lemma collect_adbpull_no_kind:
  assumes "\<not> startswith line ''/dev/input/''"
    and "ei_event_type (parse_event_adbpull line) = None"
  shows "collect_event_data_adbpull env line st =
           st\<lparr>a_coords_x := (case ei_x (parse_event_adbpull line) of
                                None \<Rightarrow> a_coords_x st | Some v \<Rightarrow> Some v),
               a_coords_y := (case ei_y (parse_event_adbpull line) of
                                None \<Rightarrow> a_coords_y st | Some v \<Rightarrow> Some v)\<rparr>"
proof -
  obtain a b c d where info:
    "parse_event_adbpull line = \<lparr>ei_x = a, ei_y = b, ei_event_type = c, ei_extra_info = d\<rparr>"
    by (cases "parse_event_adbpull line")
  with assms(2) have c: "c = None" by simp
  show ?thesis
    using assms(1) c
    by (cases a; cases b) (simp_all add: collect_event_data_adbpull_def Let_def info)
qed

lemma collect_adbpull_kind:
  assumes "\<not> startswith line ''/dev/input/''"
    and "ei_event_type (parse_event_adbpull line) = Some t"
  shows "\<exists>ev. a_pending_events (collect_event_data_adbpull env line st) =
                dict_set (event_id_of (ce_timestamp env) t (a_current_device st)) ev
                  (a_pending_events st) \<and>
              a_output (collect_event_data_adbpull env line st) = a_output st \<and>
              a_coords_x (collect_event_data_adbpull env line st) = a_coords_x st \<and>
              a_coords_y (collect_event_data_adbpull env line st) = a_coords_y st \<and>
              coord_x ev = a_coords_x st \<and> coord_y ev = a_coords_y st \<and>
              created_at ev = ce_time env \<and>
              event_type ev =
                (case map_of (a_pending_events st)
                        (event_id_of (ce_timestamp env) t (a_current_device st)) of
                   None \<Rightarrow> t | Some e \<Rightarrow> event_type e) \<and>
              resource_id ev =
                (case map_of (a_pending_events st)
                        (event_id_of (ce_timestamp env) t (a_current_device st)) of
                   None \<Rightarrow> ''unknown'' | Some e \<Rightarrow> resource_id e)"
proof -
  obtain a b c d where info:
    "parse_event_adbpull line = \<lparr>ei_x = a, ei_y = b, ei_event_type = c, ei_extra_info = d\<rparr>"
    by (cases "parse_event_adbpull line")
  with assms(2) parse_event_adbpull_kind [OF assms(2)]
  have abc: "a = None" "b = None" "c = Some t" by simp_all
  define key where "key = event_id_of (ce_timestamp env) t (a_current_device st)"
  define ev where "ev =
    (case map_of (a_pending_events st) key of
       None \<Rightarrow>
         \<lparr>timestamp = ce_timestamp env, device = a_current_device st,
          package = a_current_pkg st, activity = a_current_activity st,
          event_type = t, coord_x = a_coords_x st, coord_y = a_coords_y st,
          created_at = ce_time env, resource_id = ''unknown'',
          extra_info = (case d of None \<Rightarrow> [] | Some v \<Rightarrow> v)\<rparr>
     | Some e \<Rightarrow>
         (let e1 = e\<lparr>coord_x := a_coords_x st, coord_y := a_coords_y st,
                     created_at := ce_time env\<rparr>
          in case d of None \<Rightarrow> e1 | Some v \<Rightarrow> e1\<lparr>extra_info := v\<rparr>))"
  have ev: "coord_x ev = a_coords_x st" "coord_y ev = a_coords_y st"
    "created_at ev = ce_time env"
    "event_type ev = (case map_of (a_pending_events st) key of None \<Rightarrow> t | Some e \<Rightarrow> event_type e)"
    "resource_id ev =
       (case map_of (a_pending_events st) key of None \<Rightarrow> ''unknown'' | Some e \<Rightarrow> resource_id e)"
    by (simp_all add: ev_def Let_def split: option.splits)
  have "a_pending_events (collect_event_data_adbpull env line st) =
          dict_set key ev (a_pending_events st) \<and>
        a_output (collect_event_data_adbpull env line st) = a_output st \<and>
        a_coords_x (collect_event_data_adbpull env line st) = a_coords_x st \<and>
        a_coords_y (collect_event_data_adbpull env line st) = a_coords_y st"
    using assms(1) abc
    by (simp add: collect_event_data_adbpull_def Let_def info key_def ev_def
        split: option.splits prod.splits)
  with ev show ?thesis unfolding key_def by blast
qed

subsection \<open>One pass of the buffer loop\<close>

text \<open>
  The scan writes the entries that are due, in dictionary order and numbered from the
  counter, and keeps the others.
\<close>

lemma flush_loop_r_eq:
  "flush_loop_r now h pend n =
     (map (\<lambda>(i, (k, e)). to_json (resolved_r h e) i)
        (enumerate n (filter (\<lambda>(k, e). expired now e) pend)),
      filter (\<lambda>(k, e). \<not> expired now e) pend,
      n + length (filter (\<lambda>(k, e). expired now e) pend))"
proof (induction pend arbitrary: n)
  case Nil
  show ?case by simp
next
  case (Cons p pend)
  obtain k e where p: "p = (k, e)" by (cases p)
  show ?case
    unfolding p by (simp add: Cons.IH expired_def resolved_r_def is_complete_def)
qed

lemma flush_loop_adbpull_eq:
  "flush_loop_adbpull now h pend n =
     (map (\<lambda>(i, (k, e)). to_json (resolved_adbpull h e) i)
        (enumerate n (filter (\<lambda>(k, e). is_complete e \<or> expired now e) pend)),
      filter (\<lambda>(k, e). \<not> (is_complete e \<or> expired now e)) pend,
      n + length (filter (\<lambda>(k, e). is_complete e \<or> expired now e) pend))"
proof (induction pend arbitrary: n)
  case Nil
  show ?case by simp
next
  case (Cons p pend)
  obtain k e where p: "p = (k, e)" by (cases p)
  show ?case
    unfolding p by (simp add: Cons.IH expired_def resolved_adbpull_def is_complete_def Let_def)
qed



lemma process_buffer_r_pending:
  "r_pending_events (process_buffer_r env st) =
     filter (\<lambda>(k, e). \<not> expired (te_time env) e) (r_pending_events st)"
  by (simp add: process_buffer_r_def Let_def flush_loop_r_eq)

lemma process_buffer_r_output:
  "r_output (process_buffer_r env st) =
     r_output st @
     map (\<lambda>(i, (k, e)). to_json (resolved_r (r_current_view_hierarchy (process_buffer_r env st)) e) i)
       (enumerate (r_event_counter st)
          (filter (\<lambda>(k, e). expired (te_time env) e) (r_pending_events st)))"
  by (simp add: process_buffer_r_def Let_def flush_loop_r_eq)

lemma process_buffer_adbpull_pending:
  "a_pending_events (process_buffer_adbpull env st) =
     filter (\<lambda>(k, e). \<not> (is_complete e \<or> expired (te_time env) e)) (a_pending_events st)"
  by (simp add: process_buffer_adbpull_def Let_def flush_loop_adbpull_eq)

lemma process_buffer_adbpull_output:
  "a_output (process_buffer_adbpull env st) =
     a_output st @
     map (\<lambda>(i, (k, e)). to_json (resolved_adbpull (a_current_view_hierarchy st) e) i)
       (enumerate (a_event_counter st)
          (filter (\<lambda>(k, e). is_complete e \<or> expired (te_time env) e) (a_pending_events st)))"
  by (simp add: process_buffer_adbpull_def Let_def flush_loop_adbpull_eq)


lemma enumerate_snd: "(i, x) \<in> set (enumerate n xs) \<Longrightarrow> x \<in> set xs"
  by (auto simp: enumerate_eq_zip dest: set_zip_rightD)

lemma flushed_record_origin:
  assumes "j \<in> set (map (\<lambda>(i, (k, e)). to_json (f e) i)
                      (enumerate n (filter (\<lambda>(k, e). P e) pend)))"
  shows "\<exists>i k e. (k, e) \<in> set pend \<and> P e \<and> j = to_json (f e) i"
proof -
  from assms obtain i k e where "(i, (k, e)) \<in> set (enumerate n (filter (\<lambda>(k, e). P e) pend))"
    "j = to_json (f e) i" by auto
  moreover from this(1) have "(k, e) \<in> set (filter (\<lambda>(k, e). P e) pend)"
    by (rule enumerate_snd)
  ultimately show ?thesis by auto
qed

subsection \<open>Event kinds of the records written\<close>

lemma to_json_resolved_kind [simp]:
  "j_event_type (to_json (resolved_r h e) i) = event_type e"
  "j_event_type (to_json (resolved_adbpull h e) i) = event_type e"
  by (simp_all add: to_json_def resolved_r_def resolved_adbpull_def)

lemma collect_r_kinds:
  assumes "kinds_within (insert ''UNKNOWN'' event_types) (r_pending_events st) (r_output st)"
  shows "kinds_within (insert ''UNKNOWN'' event_types)
           (r_pending_events (collect_event_data_r env line st))
           (r_output (collect_event_data_r env line st))"
proof (cases "startswith line ''/dev/input/''")
  case True
  with assms show ?thesis by (simp add: collect_event_data_r_def)
next
  case False
  from collect_r_pending [OF False, of env st] obtain ev where ev:
    "r_pending_events (collect_event_data_r env line st) =
       dict_set (event_key_r env line st) ev (r_pending_events st)"
    "r_output (collect_event_data_r env line st) = r_output st"
    "event_type ev = (case ei_event_type (parse_event_r line) of
                        None \<Rightarrow> event_type (base_event_r env line st) | Some t \<Rightarrow> t)"
    by blast
  have "event_type ev \<in> insert ''UNKNOWN'' event_types"
  proof (cases "ei_event_type (parse_event_r line)")
    case (Some t)
    with parse_event_r_kind [OF Some] ev(3) show ?thesis by simp
  next
    case None
    show ?thesis
    proof (cases "map_of (r_pending_events st) (event_key_r env line st)")
      case (Some e)
      then have "(event_key_r env line st, e) \<in> set (r_pending_events st)"
        by (rule map_of_SomeD)
      with assms have "event_type e \<in> insert ''UNKNOWN'' event_types"
        by (auto simp: kinds_within_def)
      with None Some ev(3) show ?thesis by (simp add: base_event_r_def)
    next
      case no: None
      with None ev(3) show ?thesis by (simp add: base_event_r_def fresh_event_def)
    qed
  qed
  with assms ev(1,2) dict_set_subset [of "event_key_r env line st" ev "r_pending_events st"]
  show ?thesis by (auto simp: kinds_within_def)
qed

lemma process_buffer_r_kinds:
  assumes "kinds_within S (r_pending_events st) (r_output st)"
  shows "kinds_within S (r_pending_events (process_buffer_r env st))
           (r_output (process_buffer_r env st))"
proof -
  have "\<forall>(k, e)\<in>set (r_pending_events (process_buffer_r env st)). event_type e \<in> S"
    using assms by (auto simp: process_buffer_r_pending kinds_within_def)
  moreover have "\<forall>j\<in>set (r_output (process_buffer_r env st)). j_event_type j \<in> S"
  proof
    fix j assume "j \<in> set (r_output (process_buffer_r env st))"
    then have "j \<in> set (r_output st) \<or>
        j \<in> set (map (\<lambda>(i, (k, e)).
                 to_json (resolved_r (r_current_view_hierarchy (process_buffer_r env st)) e) i)
               (enumerate (r_event_counter st)
                  (filter (\<lambda>(k, e). expired (te_time env) e) (r_pending_events st))))"
      by (subst (asm) process_buffer_r_output) (simp only: set_append Un_iff)
    then show "j_event_type j \<in> S"
    proof
      assume "j \<in> set (r_output st)"
      with assms show ?thesis by (simp add: kinds_within_def)
    next
      assume "j \<in> set (map (\<lambda>(i, (k, e)).
                 to_json (resolved_r (r_current_view_hierarchy (process_buffer_r env st)) e) i)
               (enumerate (r_event_counter st)
                  (filter (\<lambda>(k, e). expired (te_time env) e) (r_pending_events st))))"
      from flushed_record_origin [OF this] assms show ?thesis
        by (auto simp: kinds_within_def)
    qed
  qed
  ultimately show ?thesis by (simp add: kinds_within_def)
qed

lemma run_r_kinds:
  assumes "kinds_within (insert ''UNKNOWN'' event_types) (r_pending_events st) (r_output st)"
  shows "kinds_within (insert ''UNKNOWN'' event_types)
           (r_pending_events (run_r steps st)) (r_output (run_r steps st))"
  using assms
proof (induction steps arbitrary: st)
  case Nil
  then show ?case by simp
next
  case (Cons s steps)
  show ?case
  proof (cases s)
    case (Line env line)
    with Cons.IH [OF collect_r_kinds [OF Cons.prems, of env line]] show ?thesis by simp
  next
    case (Tick env)
    with Cons.IH [OF process_buffer_r_kinds [OF Cons.prems, of env]] show ?thesis by simp
  qed
qed


lemma collect_adbpull_kinds:
  assumes "kinds_within event_types (a_pending_events st) (a_output st)"
  shows "kinds_within event_types
           (a_pending_events (collect_event_data_adbpull env line st))
           (a_output (collect_event_data_adbpull env line st))"
proof (cases "startswith line ''/dev/input/''")
  case True
  with assms show ?thesis by (simp add: collect_event_data_adbpull_def)
next
  case False
  show ?thesis
  proof (cases "ei_event_type (parse_event_adbpull line)")
    case None
    from collect_adbpull_no_kind [OF False None, of env st] assms show ?thesis by simp
  next
    case (Some t)
    let ?key = "event_id_of (ce_timestamp env) t (a_current_device st)"
    from collect_adbpull_kind [OF False Some, of env st] obtain ev where ev:
      "a_pending_events (collect_event_data_adbpull env line st) =
         dict_set ?key ev (a_pending_events st)"
      "a_output (collect_event_data_adbpull env line st) = a_output st"
      "event_type ev = (case map_of (a_pending_events st) ?key of
                          None \<Rightarrow> t | Some e \<Rightarrow> event_type e)"
      by blast
    have "event_type ev \<in> event_types"
    proof (cases "map_of (a_pending_events st) ?key")
      case None
      with ev(3) parse_event_adbpull_kind [OF Some] show ?thesis by simp
    next
      case (Some e)
      then have "(?key, e) \<in> set (a_pending_events st)" by (rule map_of_SomeD)
      with assms have "event_type e \<in> event_types" by (auto simp: kinds_within_def)
      with Some ev(3) show ?thesis by simp
    qed
    with assms ev(1,2) dict_set_subset [of ?key ev "a_pending_events st"]
    show ?thesis by (auto simp: kinds_within_def)
  qed
qed

lemma process_buffer_adbpull_kinds:
  assumes "kinds_within S (a_pending_events st) (a_output st)"
  shows "kinds_within S (a_pending_events (process_buffer_adbpull env st))
           (a_output (process_buffer_adbpull env st))"
proof -
  have "\<forall>(k, e)\<in>set (a_pending_events (process_buffer_adbpull env st)). event_type e \<in> S"
    using assms by (auto simp: process_buffer_adbpull_pending kinds_within_def)
  moreover have "\<forall>j\<in>set (a_output (process_buffer_adbpull env st)). j_event_type j \<in> S"
  proof
    fix j assume "j \<in> set (a_output (process_buffer_adbpull env st))"
    then have "j \<in> set (a_output st) \<or>
        j \<in> set (map (\<lambda>(i, (k, e)).
                 to_json (resolved_adbpull (a_current_view_hierarchy st) e) i)
               (enumerate (a_event_counter st)
                  (filter (\<lambda>(k, e). is_complete e \<or> expired (te_time env) e)
                     (a_pending_events st))))"
      by (subst (asm) process_buffer_adbpull_output) (simp only: set_append Un_iff)
    then show "j_event_type j \<in> S"
    proof
      assume "j \<in> set (a_output st)"
      with assms show ?thesis by (simp add: kinds_within_def)
    next
      assume "j \<in> set (map (\<lambda>(i, (k, e)).
                 to_json (resolved_adbpull (a_current_view_hierarchy st) e) i)
               (enumerate (a_event_counter st)
                  (filter (\<lambda>(k, e). is_complete e \<or> expired (te_time env) e)
                     (a_pending_events st))))"
      from flushed_record_origin [OF this] assms show ?thesis
        by (auto simp: kinds_within_def)
    qed
  qed
  ultimately show ?thesis by (simp add: kinds_within_def)
qed

lemma run_adbpull_kinds:
  assumes "kinds_within event_types (a_pending_events st) (a_output st)"
  shows "kinds_within event_types
           (a_pending_events (run_adbpull steps st)) (a_output (run_adbpull steps st))"
  using assms
proof (induction steps arbitrary: st)
  case Nil
  then show ?case by simp
next
  case (Cons s steps)
  show ?case
  proof (cases s)
    case (Line env line)
    with Cons.IH [OF collect_adbpull_kinds [OF Cons.prems, of env line]] show ?thesis by simp
  next
    case (Tick env)
    with Cons.IH [OF process_buffer_adbpull_kinds [OF Cons.prems, of env]] show ?thesis by simp
  qed
qed

text \<open>
  Claim C4, as stated, fails on \<open>r.py\<close>: a line without an event kind (here a position
  report) is buffered under the kind \<open>UNKNOWN\<close> and written with it once it has expired.
\<close>

theorem unknown_event_type_counterexample:
  "map j_event_type
     (r_output (run_r [Line (at_time ''12:00:00.000'' 1000) x_line, Tick (tick_at 1000.2)] init_r)) =
   [''UNKNOWN'']"
  by code_simp

text \<open>
  Claim C4, amended. Whatever lines are read and passes made, from a state with nothing
  pending and nothing written: every record \<open>adbpull.py\<close> writes has one of the five
  event kinds, and every record \<open>r.py\<close> writes has one of the five or \<open>UNKNOWN\<close>.
\<close>

theorem emitted_event_types:
  "(r_pending_events rst = [] \<and> r_output rst = [] \<longrightarrow>
      (\<forall>j\<in>set (r_output (run_r steps rst)).
         j_event_type j \<in> {''TOUCH_DOWN'', ''TOUCH_UP'', ''MOTION'', ''KEY_DOWN'', ''KEY_UP'',
                            ''UNKNOWN''})) \<and>
   (a_pending_events ast = [] \<and> a_output ast = [] \<longrightarrow>
      (\<forall>j\<in>set (a_output (run_adbpull steps ast)).
         j_event_type j \<in> {''TOUCH_DOWN'', ''TOUCH_UP'', ''MOTION'', ''KEY_DOWN'', ''KEY_UP''}))"
proof (intro conjI impI)
  assume "r_pending_events rst = [] \<and> r_output rst = []"
  then have "kinds_within (insert ''UNKNOWN'' event_types) (r_pending_events rst) (r_output rst)"
    by (simp add: kinds_within_def)
  from run_r_kinds [OF this, of steps]
  show "\<forall>j\<in>set (r_output (run_r steps rst)).
         j_event_type j \<in> {''TOUCH_DOWN'', ''TOUCH_UP'', ''MOTION'', ''KEY_DOWN'', ''KEY_UP'',
                            ''UNKNOWN''}"
    by (auto simp: kinds_within_def event_types_def)
next
  assume "a_pending_events ast = [] \<and> a_output ast = []"
  then have "kinds_within event_types (a_pending_events ast) (a_output ast)"
    by (simp add: kinds_within_def)
  from run_adbpull_kinds [OF this, of steps]
  show "\<forall>j\<in>set (a_output (run_adbpull steps ast)).
         j_event_type j \<in> {''TOUCH_DOWN'', ''TOUCH_UP'', ''MOTION'', ''KEY_DOWN'', ''KEY_UP''}"
    by (auto simp: kinds_within_def event_types_def)
qed


text \<open>
  The theorem on a run of both recorders over a position report, a touch and a pass after
  the timeout: \<open>r.py\<close> writes an \<open>UNKNOWN\<close> and a \<open>TOUCH_DOWN\<close> record, \<open>adbpull.py\<close>
  a \<open>TOUCH_DOWN\<close> record only.
\<close>

theorem emitted_event_types_witness:
  "r_pending_events init_r = [] \<and> r_output init_r = [] \<and>
   a_pending_events init_a = [] \<and> a_output init_a = [] \<and>
   map j_event_type
     (r_output (run_r [Line (at_time ''12:00:00.000'' 1000) x_line,
                       Line (at_time ''12:00:00.000'' 1000) touch_line,
                       Tick (tick_at 1000.2)] init_r)) = [''UNKNOWN'', ''TOUCH_DOWN''] \<and>
   map j_event_type
     (a_output (run_adbpull [Line (at_time ''12:00:00.000'' 1000) x_line,
                             Line (at_time ''12:00:00.000'' 1000) touch_line,
                             Tick (tick_at 1000.2)] init_a)) = [''TOUCH_DOWN''] \<and>
   set (map j_event_type
     (r_output (run_r [Line (at_time ''12:00:00.000'' 1000) x_line,
                       Line (at_time ''12:00:00.000'' 1000) touch_line,
                       Tick (tick_at 1000.2)] init_r)))
     \<subseteq> {''TOUCH_DOWN'', ''TOUCH_UP'', ''MOTION'', ''KEY_DOWN'', ''KEY_UP'', ''UNKNOWN''} \<and>
   set (map j_event_type
     (a_output (run_adbpull [Line (at_time ''12:00:00.000'' 1000) x_line,
                             Line (at_time ''12:00:00.000'' 1000) touch_line,
                             Tick (tick_at 1000.2)] init_a)))
     \<subseteq> {''TOUCH_DOWN'', ''TOUCH_UP'', ''MOTION'', ''KEY_DOWN'', ''KEY_UP''}"
proof -
  let ?steps = "[Line (at_time ''12:00:00.000'' 1000) x_line,
                 Line (at_time ''12:00:00.000'' 1000) touch_line, Tick (tick_at 1000.2)]"
  have i: "r_pending_events init_r = [] \<and> r_output init_r = []"
    "a_pending_events init_a = [] \<and> a_output init_a = []"
    by (simp_all add: init_r_def init_a_def)
  have r: "map j_event_type (r_output (run_r ?steps init_r)) = [''UNKNOWN'', ''TOUCH_DOWN'']"
    by code_simp
  have a: "map j_event_type (a_output (run_adbpull ?steps init_a)) = [''TOUCH_DOWN'']"
    by code_simp
  from emitted_event_types [of init_r ?steps init_a] i
  have "set (map j_event_type (r_output (run_r ?steps init_r)))
          \<subseteq> {''TOUCH_DOWN'', ''TOUCH_UP'', ''MOTION'', ''KEY_DOWN'', ''KEY_UP'', ''UNKNOWN''}"
    "set (map j_event_type (a_output (run_adbpull ?steps init_a)))
          \<subseteq> {''TOUCH_DOWN'', ''TOUCH_UP'', ''MOTION'', ''KEY_DOWN'', ''KEY_UP''}"
    by auto
  with i r a show ?thesis by blast
qed

subsection \<open>Flushing complete events\<close>





subsection \<open>Fragments without an event kind\<close>

text \<open>
  Claim C2, as stated, fails on both variants. With a \<open>TOUCH_DOWN\<close> event pending, a
  position report read in the same millisecond leaves that event without coordinates:
  \<open>r.py\<close> creates a second entry, of kind \<open>UNKNOWN\<close>, that takes the coordinate, and
  \<open>adbpull.py\<close> stores the coordinate in the recorder only.
\<close>

theorem coordinate_fragment_new_entry_counterexample:
  "map fst (r_pending_events
     (run_r [Line (at_time ''12:00:00.000'' 1000) touch_line,
             Line (at_time ''12:00:00.000'' 1000) x_line] init_r)) =
     [''12:00:00.000_TOUCH_DOWN_unknown'', ''12:00:00.000_UNKNOWN_unknown''] \<and>
   map (event_type \<circ> snd) (r_pending_events
     (run_r [Line (at_time ''12:00:00.000'' 1000) touch_line,
             Line (at_time ''12:00:00.000'' 1000) x_line] init_r)) =
     [''TOUCH_DOWN'', ''UNKNOWN''] \<and>
   map (coord_x \<circ> snd) (r_pending_events
     (run_r [Line (at_time ''12:00:00.000'' 1000) touch_line,
             Line (at_time ''12:00:00.000'' 1000) x_line] init_r)) =
     [None, Some 100] \<and>
   map (coord_x \<circ> snd) (a_pending_events
     (run_adbpull [Line (at_time ''12:00:00.000'' 1000) touch_line,
                   Line (at_time ''12:00:00.000'' 1000) x_line] init_a)) =
     [None] \<and>
   a_coords_x
     (run_adbpull [Line (at_time ''12:00:00.000'' 1000) touch_line,
                   Line (at_time ''12:00:00.000'' 1000) x_line] init_a) = Some 100"
  by code_simp

text \<open>
  Claim C2, amended. For a line that yields a fragment without an event kind (so for
  every fragment that carries only coordinates): \<open>r.py\<close> applies it to the entry keyed by
  the current time stamp, the kind \<open>UNKNOWN\<close> and the current device, leaving every other
  entry as it was; when no such entry is pending it appends a new one of kind \<open>UNKNOWN\<close>
  whose coordinates are those of the fragment, and otherwise the pending one keeps its
  kind and takes the coordinates the fragment carries. \<open>adbpull.py\<close> stores the
  coordinates in the recorder (they are copied into the event that the next fragment with
  a kind creates or updates) and changes nothing else: no entry is created or updated.
\<close>

theorem coordinate_fragment_collect:
  "(\<not> startswith line ''/dev/input/'' \<and> ei_event_type (parse_event_r line) = None \<longrightarrow>
      (\<exists>ev. r_pending_events (collect_event_data_r env line rst) =
               dict_set (event_id_of (ce_timestamp env) ''UNKNOWN'' (r_current_device rst)) ev
                 (r_pending_events rst) \<and>
            map_of (r_pending_events (collect_event_data_r env line rst)) =
              (map_of (r_pending_events rst))
                (event_id_of (ce_timestamp env) ''UNKNOWN'' (r_current_device rst) \<mapsto> ev) \<and>
            (map_of (r_pending_events rst)
               (event_id_of (ce_timestamp env) ''UNKNOWN'' (r_current_device rst)) = None \<longrightarrow>
               r_pending_events (collect_event_data_r env line rst) =
                 r_pending_events rst @
                 [(event_id_of (ce_timestamp env) ''UNKNOWN'' (r_current_device rst), ev)] \<and>
               event_type ev = ''UNKNOWN'' \<and>
               coord_x ev = ei_x (parse_event_r line) \<and>
               coord_y ev = ei_y (parse_event_r line)) \<and>
            (\<forall>e. map_of (r_pending_events rst)
                   (event_id_of (ce_timestamp env) ''UNKNOWN'' (r_current_device rst)) = Some e \<longrightarrow>
               event_type ev = event_type e \<and>
               coord_x ev = (case ei_x (parse_event_r line) of
                               None \<Rightarrow> coord_x e | Some v \<Rightarrow> Some v) \<and>
               coord_y ev = (case ei_y (parse_event_r line) of
                               None \<Rightarrow> coord_y e | Some v \<Rightarrow> Some v)))) \<and>
   (\<not> startswith line ''/dev/input/'' \<and> ei_event_type (parse_event_adbpull line) = None \<longrightarrow>
      collect_event_data_adbpull env line ast =
        ast\<lparr>a_coords_x := (case ei_x (parse_event_adbpull line) of
                              None \<Rightarrow> a_coords_x ast | Some v \<Rightarrow> Some v),
            a_coords_y := (case ei_y (parse_event_adbpull line) of
                              None \<Rightarrow> a_coords_y ast | Some v \<Rightarrow> Some v)\<rparr> \<and>
      a_pending_events (collect_event_data_adbpull env line ast) = a_pending_events ast)"
proof (intro conjI impI)
  assume h: "\<not> startswith line ''/dev/input/'' \<and> ei_event_type (parse_event_r line) = None"
  let ?key = "event_id_of (ce_timestamp env) ''UNKNOWN'' (r_current_device rst)"
  let ?st1 = "collect_event_data_r env line rst"
  from h have key: "event_key_r env line rst = ?key" by (simp add: event_key_r_def)
  from h collect_r_pending [of line env rst] obtain ev where ev:
    "r_pending_events ?st1 = dict_set ?key ev (r_pending_events rst)"
    "event_type ev = event_type (base_event_r env line rst)"
    "coord_x ev = (case ei_x (parse_event_r line) of
                     None \<Rightarrow> coord_x (base_event_r env line rst) | Some v \<Rightarrow> Some v)"
    "coord_y ev = (case ei_y (parse_event_r line) of
                     None \<Rightarrow> coord_y (base_event_r env line rst) | Some v \<Rightarrow> Some v)"
    unfolding key by auto
  have m: "map_of (r_pending_events ?st1) = (map_of (r_pending_events rst))(?key \<mapsto> ev)"
    unfolding ev(1) by (rule map_of_dict_set)
  have n: "r_pending_events ?st1 = r_pending_events rst @ [(?key, ev)] \<and>
           event_type ev = ''UNKNOWN'' \<and> coord_x ev = ei_x (parse_event_r line) \<and>
           coord_y ev = ei_y (parse_event_r line)"
    if "map_of (r_pending_events rst) ?key = None"
  proof -
    from that h key have "base_event_r env line rst =
        fresh_event (ce_timestamp env) (r_current_device rst) (r_current_pkg rst)
          (r_current_activity rst) ''UNKNOWN'' (ce_time env)"
      by (simp add: base_event_r_def)
    with ev(2,3,4) have "event_type ev = ''UNKNOWN''" "coord_x ev = ei_x (parse_event_r line)"
      "coord_y ev = ei_y (parse_event_r line)"
      by (simp_all add: fresh_event_def split: option.splits)
    with that ev(1) show ?thesis by (simp add: dict_set_new)
  qed
  have o: "event_type ev = event_type e \<and>
           coord_x ev = (case ei_x (parse_event_r line) of None \<Rightarrow> coord_x e | Some v \<Rightarrow> Some v) \<and>
           coord_y ev = (case ei_y (parse_event_r line) of None \<Rightarrow> coord_y e | Some v \<Rightarrow> Some v)"
    if "map_of (r_pending_events rst) ?key = Some e" for e
  proof -
    from that key have "base_event_r env line rst = e" by (simp add: base_event_r_def)
    with ev(2,3,4) show ?thesis by (simp split: option.splits)
  qed
  from ev(1) m n o
  show "\<exists>ev. r_pending_events ?st1 = dict_set ?key ev (r_pending_events rst) \<and>
            map_of (r_pending_events ?st1) = (map_of (r_pending_events rst))(?key \<mapsto> ev) \<and>
            (map_of (r_pending_events rst) ?key = None \<longrightarrow>
               r_pending_events ?st1 = r_pending_events rst @ [(?key, ev)] \<and>
               event_type ev = ''UNKNOWN'' \<and>
               coord_x ev = ei_x (parse_event_r line) \<and>
               coord_y ev = ei_y (parse_event_r line)) \<and>
            (\<forall>e. map_of (r_pending_events rst) ?key = Some e \<longrightarrow>
               event_type ev = event_type e \<and>
               coord_x ev = (case ei_x (parse_event_r line) of
                               None \<Rightarrow> coord_x e | Some v \<Rightarrow> Some v) \<and>
               coord_y ev = (case ei_y (parse_event_r line) of
                               None \<Rightarrow> coord_y e | Some v \<Rightarrow> Some v))"
    by (intro exI [of _ ev]) blast
next
  assume h: "\<not> startswith line ''/dev/input/'' \<and> ei_event_type (parse_event_adbpull line) = None"
  then have c: "collect_event_data_adbpull env line ast =
        ast\<lparr>a_coords_x := (case ei_x (parse_event_adbpull line) of
                              None \<Rightarrow> a_coords_x ast | Some v \<Rightarrow> Some v),
            a_coords_y := (case ei_y (parse_event_adbpull line) of
                              None \<Rightarrow> a_coords_y ast | Some v \<Rightarrow> Some v)\<rparr>"
    by (simp add: collect_adbpull_no_kind)
  then show "collect_event_data_adbpull env line ast =
        ast\<lparr>a_coords_x := (case ei_x (parse_event_adbpull line) of
                              None \<Rightarrow> a_coords_x ast | Some v \<Rightarrow> Some v),
            a_coords_y := (case ei_y (parse_event_adbpull line) of
                              None \<Rightarrow> a_coords_y ast | Some v \<Rightarrow> Some v)\<rparr>" .
  from c show "a_pending_events (collect_event_data_adbpull env line ast) = a_pending_events ast"
    by simp
qed

text \<open>
  The theorem at a horizontal position report: read by \<open>r.py\<close> with nothing pending, and
  by \<open>adbpull.py\<close> with one event pending.
\<close>

theorem coordinate_fragment_collect_witness:
  "\<not> startswith x_line ''/dev/input/'' \<and>
   ei_event_type (parse_event_r x_line) = None \<and>
   ei_event_type (parse_event_adbpull x_line) = None \<and>
   map_of (r_pending_events init_r)
     (event_id_of (ce_timestamp (at_time ''12:00:00.000'' 1000)) ''UNKNOWN''
        (r_current_device init_r)) = None \<and>
   map fst (r_pending_events
     (collect_event_data_r (at_time ''12:00:00.000'' 1000) x_line init_r)) =
     [''12:00:00.000_UNKNOWN_unknown''] \<and>
   map (event_type \<circ> snd) (r_pending_events
     (collect_event_data_r (at_time ''12:00:00.000'' 1000) x_line init_r)) = [''UNKNOWN''] \<and>
   map (coord_x \<circ> snd) (r_pending_events
     (collect_event_data_r (at_time ''12:00:00.000'' 1000) x_line init_r)) = [Some 100] \<and>
   a_pending_events (collect_event_data_adbpull (at_time ''12:00:00.000'' 1000) x_line holding_a) =
     a_pending_events holding_a \<and>
   a_coords_x (collect_event_data_adbpull (at_time ''12:00:00.000'' 1000) x_line holding_a) =
     Some 100"
proof -
  let ?env = "at_time ''12:00:00.000'' 1000"
  let ?key = "event_id_of (ce_timestamp ?env) ''UNKNOWN'' (r_current_device init_r)"
  have h: "\<not> startswith x_line ''/dev/input/''"
    "ei_event_type (parse_event_r x_line) = None"
    "ei_event_type (parse_event_adbpull x_line) = None"
    "ei_x (parse_event_r x_line) = Some 100"
    "ei_x (parse_event_adbpull x_line) = Some 100"
    by code_simp+
  have f: "map_of (r_pending_events init_r) ?key = None" "r_pending_events init_r = []"
    by (simp_all add: init_r_def)
  have k: "?key = ''12:00:00.000_UNKNOWN_unknown''"
    by (simp add: event_id_of_def at_time_def init_r_def)
  note inst = coordinate_fragment_collect [of x_line ?env init_r holding_a]
  from inst h(1,2) f obtain ev where
    "r_pending_events (collect_event_data_r ?env x_line init_r) = [(?key, ev)]"
    "event_type ev = ''UNKNOWN''" "coord_x ev = ei_x (parse_event_r x_line)"
    by auto
  with h(4) k have r:
    "map fst (r_pending_events (collect_event_data_r ?env x_line init_r)) =
       [''12:00:00.000_UNKNOWN_unknown'']"
    "map (event_type \<circ> snd) (r_pending_events (collect_event_data_r ?env x_line init_r)) =
       [''UNKNOWN'']"
    "map (coord_x \<circ> snd) (r_pending_events (collect_event_data_r ?env x_line init_r)) =
       [Some 100]"
    by simp_all
  from inst h(1,3,5)
  have a: "a_pending_events (collect_event_data_adbpull ?env x_line holding_a) =
       a_pending_events holding_a"
    "a_coords_x (collect_event_data_adbpull ?env x_line holding_a) = Some 100"
    by simp_all
  from h(1,2,3) f(1) r a show ?thesis by blast
qed

subsection \<open>Events that receive an event kind only\<close>






end
